theory Spec2Isabelle
  imports Complex_Main "HOL-Library.AList" "HOL-Library.Sublist" "HOL-Library.Log_Nat"
begin

section \<open>Floating-point numbers\<close>

text \<open>
  A Python \<open>float\<close> and a \<open>numpy.float64\<close> are IEEE 754 binary64 numbers. A finite value
  is given by the rational it denotes (\<open>Finite 0\<close> is \<open>+0.0\<close>, \<open>NegZero\<close> is \<open>-0.0\<close>); the
  other values are the two infinities and \<open>NaN\<close>. Every arithmetic operation returns the
  exact result rounded to the nearest binary64 number, a tie going to the even mantissa;
  a division by zero gives an infinity or \<open>NaN\<close> and raises nothing, as in numpy.
\<close>

datatype float64 = Finite rat | NegZero | PInf | NInf | NaN

text \<open>The nearest integer, a tie going to the even one.\<close>

definition round_half_even :: "rat \<Rightarrow> int" where
  "round_half_even x =
     (let f = \<lfloor>x\<rfloor>; r = x - of_int f
      in if r < 1 / 2 then f else if 1 / 2 < r then f + 1
         else if even f then f else f + 1)"

definition pow2 :: "int \<Rightarrow> rat" where
  "pow2 e = (if 0 \<le> e then 2 ^ nat e else 1 / 2 ^ nat (- e))"

text \<open>The binary exponent of a positive rational: \<open>2^e \<le> a < 2^(e+1)\<close>.\<close>

definition ilog2 :: "rat \<Rightarrow> int" where
  "ilog2 a =
     (if 1 \<le> a then bitlen \<lfloor>a\<rfloor> - 1 else - bitlen (\<lceil>1 / a\<rceil> - 1))"

text \<open>
  Rounding of an exact result to binary64: 53 bits of mantissa, the exponent not below
  \<open>-1022\<close> (below it the numbers are subnormal), overflow to an infinity from \<open>2^1024\<close> on.
\<close>

definition round_to_double :: "rat \<Rightarrow> float64" where
  "round_to_double q =
     (if q = 0 then Finite 0
      else (let a = \<bar>q\<bar>;
                e = max (ilog2 a) (- 1022);
                ulp = pow2 (e - 52);
                r = of_int (round_half_even (a / ulp)) * ulp
            in if pow2 1024 \<le> r then (if q < 0 then NInf else PInf)
               else if r = 0 then (if q < 0 then NegZero else Finite 0)
               else Finite (if q < 0 then - r else r)))"

fun is_nan :: "float64 \<Rightarrow> bool" where
  "is_nan NaN = True"
| "is_nan x = False"

fun is_inf :: "float64 \<Rightarrow> bool" where
  "is_inf PInf = True"
| "is_inf NInf = True"
| "is_inf x = False"

fun sign_bit :: "float64 \<Rightarrow> bool" where
  "sign_bit (Finite q) = (q < 0)"
| "sign_bit NegZero = True"
| "sign_bit PInf = False"
| "sign_bit NInf = True"
| "sign_bit NaN = False"

text \<open>The rational denoted by a finite value (both zeros denote 0).\<close>

fun fval :: "float64 \<Rightarrow> rat" where
  "fval (Finite q) = q"
| "fval x = 0"

definition signed_zero :: "bool \<Rightarrow> float64" where
  "signed_zero negative = (if negative then NegZero else Finite 0)"

definition signed_inf :: "bool \<Rightarrow> float64" where
  "signed_inf negative = (if negative then NInf else PInf)"

fun fneg :: "float64 \<Rightarrow> float64" where
  "fneg (Finite q) = (if q = 0 then NegZero else Finite (- q))"
| "fneg NegZero = Finite 0"
| "fneg PInf = NInf"
| "fneg NInf = PInf"
| "fneg NaN = NaN"

definition fadd :: "float64 \<Rightarrow> float64 \<Rightarrow> float64" where
  "fadd x y =
     (if is_nan x \<or> is_nan y then NaN
      else if is_inf x then (if is_inf y \<and> x \<noteq> y then NaN else x)
      else if is_inf y then y
      else if fval x + fval y = 0
           then signed_zero (fval x = 0 \<and> fval y = 0 \<and> sign_bit x \<and> sign_bit y)
      else round_to_double (fval x + fval y))"

text \<open>\<open>x - y\<close>\<close>

definition fsub :: "float64 \<Rightarrow> float64 \<Rightarrow> float64" where
  "fsub x y = fadd x (fneg y)"

text \<open>\<open>x * y\<close>\<close>

definition fmul :: "float64 \<Rightarrow> float64 \<Rightarrow> float64" where
  "fmul x y =
     (if is_nan x \<or> is_nan y then NaN
      else if is_inf x \<or> is_inf y
           then (if (\<not> is_inf x \<and> fval x = 0) \<or> (\<not> is_inf y \<and> fval y = 0) then NaN
                 else signed_inf (sign_bit x \<noteq> sign_bit y))
      else if fval x * fval y = 0 then signed_zero (sign_bit x \<noteq> sign_bit y)
      else round_to_double (fval x * fval y))"

text \<open>\<open>x / y\<close> on \<open>numpy.float64\<close>: a zero divisor gives an infinity or \<open>NaN\<close>.\<close>

definition fdiv :: "float64 \<Rightarrow> float64 \<Rightarrow> float64" where
  "fdiv x y =
     (if is_nan x \<or> is_nan y then NaN
      else if is_inf x then (if is_inf y then NaN else signed_inf (sign_bit x \<noteq> sign_bit y))
      else if is_inf y then signed_zero (sign_bit x \<noteq> sign_bit y)
      else if fval y = 0
           then (if fval x = 0 then NaN else signed_inf (sign_bit x \<noteq> sign_bit y))
      else if fval x = 0 then signed_zero (sign_bit x \<noteq> sign_bit y)
      else round_to_double (fval x / fval y))"

text \<open>\<open>rint\<close>: the nearest integral value, a tie going to the even one; the sign is kept.\<close>

fun rint :: "float64 \<Rightarrow> float64" where
  "rint (Finite q) =
     (if round_half_even q = 0 then signed_zero (q < 0)
      else Finite (of_int (round_half_even q)))"
| "rint x = x"

text \<open>
  \<open>round(x, n)\<close> on a \<open>numpy.float64\<close> for \<open>n > 0\<close>: numpy scales by \<open>10^n\<close>, applies
  \<open>rint\<close> and divides by \<open>10^n\<close>, each step in binary64.
\<close>

definition np_round :: "float64 \<Rightarrow> nat \<Rightarrow> float64" where
  "np_round x n = fdiv (rint (fmul x (Finite (10 ^ n)))) (Finite (10 ^ n))"

section \<open>Python values\<close>

text \<open>
  The two modules handle decoded JSON: dictionaries, lists, strings, numbers, booleans and
  \<open>None\<close>. A dictionary is an association list read with \<open>map_of\<close> and written with
  \<open>AList.update\<close> (an existing key keeps its place, a new key goes to the end, as in a
  Python \<open>dict\<close>). \<open>JNull\<close> is Python's \<open>None\<close>.
\<close>

datatype json =
    JNull
  | JBool bool
  | JInt int
  | JFloat float64
  | JStr string
  | JArr "json list"
  | JObj "(string \<times> json) list"

text \<open>Truth value of an object, as tested by \<open>if not x\<close>.\<close>

fun truthy :: "json \<Rightarrow> bool" where
  "truthy JNull = False"
| "truthy (JBool b) = b"
| "truthy (JInt i) = (i \<noteq> 0)"
| "truthy (JFloat x) = (x \<noteq> Finite 0 \<and> x \<noteq> NegZero)"
| "truthy (JStr s) = (s \<noteq> [])"
| "truthy (JArr xs) = (xs \<noteq> [])"
| "truthy (JObj d) = (d \<noteq> [])"

fun type_name :: "json \<Rightarrow> string" where
  "type_name JNull = ''NoneType''"
| "type_name (JBool b) = ''bool''"
| "type_name (JInt i) = ''int''"
| "type_name (JFloat r) = ''float''"
| "type_name (JStr s) = ''str''"
| "type_name (JArr xs) = ''list''"
| "type_name (JObj d) = ''dict''"

subsection \<open>Exceptions\<close>

text \<open>
  Every \<open>raise\<close> is a value \<open>Inl e\<close> of a sum type. Only subclasses of \<open>Exception\<close> are
  modelled (all handlers of the program are \<open>except Exception\<close> or narrower). An exception
  of a subclass of \<open>openai.APIError\<close> is represented with the class \<open>APIError\<close>.
\<close>

datatype exn_class =
    PlainException
  | ValueError
  | JSONDecodeError
  | APIError
  | AttributeError
  | TypeError
  | OtherError

datatype exn = Exn (kind: exn_class) (message: string)

definition no_attribute :: "json \<Rightarrow> string \<Rightarrow> exn" where
  "no_attribute v a =
     Exn AttributeError ([CHR 0x27] @ type_name v @ ''' object has no attribute ''
       @ [CHR 0x27] @ a @ [CHR 0x27])"

subsection \<open>Dictionary and iteration primitives\<close>

definition dict_get :: "(string \<times> json) list \<Rightarrow> string \<Rightarrow> json \<Rightarrow> json" where
  "dict_get d k dflt = (case map_of d k of None \<Rightarrow> dflt | Some v \<Rightarrow> v)"

text \<open>\<open>x.get(k, dflt)\<close> on an arbitrary object: only a dictionary has the method.\<close>

fun py_get :: "json \<Rightarrow> string \<Rightarrow> json \<Rightarrow> exn + json" where
  "py_get (JObj d) k dflt = Inr (dict_get d k dflt)"
| "py_get v k dflt = Inl (no_attribute v ''get'')"

text \<open>
  \<open>for x in v\<close>: a list yields its elements, a dictionary its keys, a string its
  characters; anything else is not iterable.
\<close>

fun py_iter :: "json \<Rightarrow> exn + json list" where
  "py_iter (JArr xs) = Inr xs"
| "py_iter (JObj d) = Inr (map (\<lambda>kv. JStr (fst kv)) d)"
| "py_iter (JStr s) = Inr (map (\<lambda>c. JStr [c]) s)"
| "py_iter v =
     Inl (Exn TypeError ([CHR 0x27] @ type_name v @ ''' object is not iterable''))"

subsection \<open>String methods\<close>

text \<open>\<open>s.lower()\<close> on ASCII text.\<close>

definition lower_char :: "char \<Rightarrow> char" where
  "lower_char c =
     (let n = (of_char c :: nat) in if 65 \<le> n \<and> n \<le> 90 then char_of (n + 32) else c)"

definition str_lower :: "string \<Rightarrow> string" where
  "str_lower s = map lower_char s"

text \<open>\<open>s.find(c)\<close>: the lowest index of \<open>c\<close>, or \<open>-1\<close>.\<close>

definition str_find :: "string \<Rightarrow> char \<Rightarrow> int" where
  "str_find s c =
     (if c \<in> set s then int (length (takeWhile (\<lambda>x. x \<noteq> c) s)) else - 1)"

text \<open>\<open>s.rfind(c)\<close>: the highest index of \<open>c\<close>, or \<open>-1\<close>.\<close>

definition str_rfind :: "string \<Rightarrow> char \<Rightarrow> int" where
  "str_rfind s c =
     (if c \<in> set s
      then int (length s) - 1 - int (length (takeWhile (\<lambda>x. x \<noteq> c) (rev s)))
      else - 1)"

text \<open>\<open>s[i:j]\<close> with Python's treatment of negative and out-of-range bounds.\<close>

definition slice_bound :: "nat \<Rightarrow> int \<Rightarrow> nat" where
  "slice_bound n i = (if i < 0 then nat (max 0 (int n + i)) else min n (nat i))"

definition str_slice :: "string \<Rightarrow> int \<Rightarrow> int \<Rightarrow> string" where
  "str_slice s i j =
     (let a = slice_bound (length s) i; b = slice_bound (length s) j
      in take (b - a) (drop a s))"

text \<open>\<open>s.strip()\<close> on ASCII text: whitespace is removed at both ends.\<close>

definition is_space :: "char \<Rightarrow> bool" where
  "is_space c =
     (let n = (of_char c :: nat) in n = 32 \<or> (9 \<le> n \<and> n \<le> 13) \<or> (28 \<le> n \<and> n \<le> 31))"

definition str_strip :: "string \<Rightarrow> string" where
  "str_strip s = rev (dropWhile is_space (rev (dropWhile is_space s)))"

text \<open>\<open>s.replace(old, new)\<close> for a non-empty \<open>old\<close>: left to right, without overlap.\<close>

fun str_replace :: "string \<Rightarrow> string \<Rightarrow> string \<Rightarrow> string" where
  "str_replace old new [] = []"
| "str_replace old new (x # xs) =
     (if old \<noteq> [] \<and> prefix old (x # xs)
      then new @ str_replace old new (drop (length old - 1) xs)
      else x # str_replace old new xs)"

section \<open>External collaborators\<close>

text \<open>
  The environment, the two vendor SDKs, the JSON decoder of the standard library, the
  market-data client and the clock are not part of the program. They are the fields of a
  record; every result below holds for arbitrary values of these fields.
  \<^item> \<open>getenv\<close>: \<open>os.getenv\<close>.
  \<^item> \<open>openai_OpenAI k\<close>: \<open>openai.OpenAI(api_key=k)\<close>; raises, or gives a client whose
    \<open>api_key\<close> attribute is returned.
  \<^item> \<open>genai_init k\<close>: \<open>genai.configure(api_key=k)\<close> followed by
    \<open>genai.GenerativeModel(...)\<close>; \<open>Some e\<close> when one of them raises.
  \<^item> \<open>openai_create p\<close>: \<open>chat.completions.create(...)\<close> for the prompt \<open>p\<close>, followed by
    \<open>.choices[0].message.content\<close> (a string or \<open>None\<close>).
  \<^item> \<open>gemini_text p\<close>: \<open>generate_content(p).text\<close>.
  \<^item> \<open>json_loads\<close>: \<open>json.loads\<close>.
  \<^item> \<open>ticker_info t\<close>: \<open>yf.Ticker(t).info\<close>, a dictionary; \<open>Inl e\<close> stands for any
    exception raised inside the \<open>try\<close> around the lookup.
  \<^item> \<open>ticker_history t\<close>: the \<open>Close\<close> column of \<open>yf.Ticker(t).history(period=2d)\<close>,
    oldest first; \<open>Inl e\<close> stands for any exception raised inside the \<open>try\<close> around
    the fetch.
  \<^item> \<open>now\<close>: \<open>datetime.now()\<close> in microseconds.
  \<^item> \<open>py_str\<close>, \<open>timestamp_str\<close>: the text that an f-string gives for an object other
    than a string, and for \<open>now.timestamp()\<close>.
  The closes are \<open>numpy.float64\<close> values.
\<close>

record world =
  getenv :: "string \<Rightarrow> string option"
  openai_OpenAI :: "string option \<Rightarrow> exn + string option"
  genai_init :: "string \<Rightarrow> exn option"
  openai_create :: "string \<Rightarrow> exn + string option"
  gemini_text :: "string \<Rightarrow> exn + string"
  json_loads :: "string \<Rightarrow> exn + json"
  ticker_info :: "json \<Rightarrow> exn + (string \<times> json) list"
  ticker_history :: "json \<Rightarrow> exn + float64 list"
  now :: int
  py_str :: "json \<Rightarrow> string"
  timestamp_str :: "int \<Rightarrow> string"

section \<open>The LLM service (llm\_service.py)\<close>

text \<open>\<open>LLMService.__init__\<close>: the result is \<open>self.provider\<close>.\<close>

definition LLMService_init :: "world \<Rightarrow> string \<Rightarrow> exn + string" where
  "LLMService_init w provider =
     (let p = str_lower provider in
      if p \<notin> set [''openai'', ''gemini'']
      then Inl (Exn ValueError
             (''Unsupported provider: '' @ p @ ''. Please use 'openai' or 'gemini'.''))
      else if p = ''openai''
      then (case openai_OpenAI w (getenv w ''OPENAI_API_KEY'') of
              Inl e \<Rightarrow> Inl e
            | Inr api_key \<Rightarrow>
                if api_key = None \<or> api_key = Some []
                then Inl (Exn ValueError ''OPENAI_API_KEY environment variable not set.'')
                else Inr p)
      else (case getenv w ''GEMINI_API_KEY'' of
              None \<Rightarrow> Inl (Exn ValueError ''GEMINI_API_KEY environment variable not set.'')
            | Some gemini_api_key \<Rightarrow>
                if gemini_api_key = []
                then Inl (Exn ValueError ''GEMINI_API_KEY environment variable not set.'')
                else (case genai_init w gemini_api_key of
                        Some e \<Rightarrow> Inl e
                      | None \<Rightarrow> Inr p)))"

definition prompt_lines :: "string list" where
  \<open>prompt_lines =
     [''Generate a list of the 50 most popular stocks this week. For each stock, provide:'',
      ''1. The ticker symbol (string)'',
      ''2. A buy_sell_score (integer from 0 to 100, where 100 is a strong buy)'',
      ''3. A brief reason for the preference (string, 1-2 sentences)'',
      [],
      ''Return the data as a single JSON object with a key "stocks" containing a list of these items.'',
      ''Example format: {"stocks": [{"ticker": "AAPL", "preference_score": 85, "reason": "..."}]}'',
      []]\<close>

definition generate_prompt :: string where
  "generate_prompt = concat (map (\<lambda>l. [CHR 0x0A] @ ''        '' @ l) prompt_lines)"

definition call_openai :: "world \<Rightarrow> string \<Rightarrow> exn + string option" where
  "call_openai w prompt =
     (case openai_create w prompt of
        Inr content \<Rightarrow> Inr content
      | Inl e \<Rightarrow>
          if kind e = APIError
          then Inl (Exn PlainException (''OpenAI API error: '' @ message e))
          else Inl e)"

definition call_gemini :: "world \<Rightarrow> string \<Rightarrow> exn + string option" where
  "call_gemini w prompt =
     (case gemini_text w prompt of
        Inr text \<Rightarrow>
          Inr (Some (str_replace ''```'' [] (str_replace ''```json'' [] (str_strip text))))
      | Inl e \<Rightarrow> Inl (Exn PlainException (''Gemini API error: '' @ message e)))"

text \<open>
  The body of the \<open>try\<close> block of \<open>generate_stock_data\<close>. \<open>raw_response\<close> is \<open>None\<close> when
  the OpenAI message has no content; then \<open>raw_response.find\<close> raises.
\<close>

definition extract_json :: "world \<Rightarrow> string option \<Rightarrow> exn + json" where
  "extract_json w raw_response =
     (case raw_response of
        None \<Rightarrow> Inl (no_attribute JNull ''find'')
      | Some raw \<Rightarrow>
          (let start_index = str_find raw (CHR ''{'');
               end_index = str_rfind raw (CHR ''}'') + 1
           in if start_index = - 1 \<or> end_index = 0
              then Inl (Exn JSONDecodeError ''Could not find a JSON object in the response.'')
              else json_loads w (str_slice raw start_index end_index)))"

text \<open>The handler \<open>except json.JSONDecodeError\<close>; any other exception passes through.\<close>

definition on_JSONDecodeError :: "exn + json \<Rightarrow> exn + json" where
  "on_JSONDecodeError r =
     (case r of
        Inr v \<Rightarrow> Inr v
      | Inl e \<Rightarrow>
          if kind e = JSONDecodeError
          then Inl (Exn PlainException ''Failed to decode JSON from LLM response.'')
          else Inl e)"

definition generate_stock_data :: "world \<Rightarrow> string \<Rightarrow> exn + json" where
  "generate_stock_data w provider =
     (let prompt = generate_prompt in
      case (if provider = ''openai'' then call_openai w prompt
            else if provider = ''gemini'' then call_gemini w prompt
            else Inr (Some [])) of
        Inl e \<Rightarrow> Inl e
      | Inr raw_response \<Rightarrow> on_JSONDecodeError (extract_json w raw_response))"

section \<open>The endpoints (app.py)\<close>

text \<open>The global \<open>weekly_stock_data\<close> and its value at start-up.\<close>

record cache =
  last_updated :: "int option"
  data :: "json list"

definition initial_cache :: cache where
  "initial_cache = \<lparr>last_updated = None, data = []\<rparr>"

subsection \<open>generate\_weekly\_stocks\<close>

text \<open>The two shapes of the response: \<open>{message, count}\<close> and \<open>{error}\<close>.\<close>

datatype gen_response = Generated string nat | GenError string

text \<open>
  The loop over \<open>stock_list\<close>; the last argument is \<open>enriched_stock_list\<close>. A lookup that
  raises lands in the inner handler, which still appends the entry.
\<close>

fun enrich_loop :: "world \<Rightarrow> json list \<Rightarrow> json list \<Rightarrow> exn + json list" where
  "enrich_loop w [] enriched = Inr enriched"
| "enrich_loop w (stock # rest) enriched =
     (case stock of
        JObj d \<Rightarrow>
          if \<not> truthy (dict_get d ''ticker'' JNull) then enrich_loop w rest enriched
          else (case ticker_info w (dict_get d ''ticker'' JNull) of
                  Inr info \<Rightarrow>
                    enrich_loop w rest (enriched @
                      [JObj (AList.update ''name''
                         (dict_get info ''longName'' (dict_get d ''ticker'' JNull)) d)])
                | Inl e \<Rightarrow>
                    enrich_loop w rest (enriched @
                      [JObj (AList.update ''name'' (dict_get d ''ticker'' JNull) d)]))
      | _ \<Rightarrow> Inl (no_attribute stock ''get''))"

text \<open>
  The outer \<open>try\<close> up to the head of the loop: the service is built, the model is asked,
  and the value under \<open>stocks\<close> is iterated.
\<close>

definition parsed_stocks :: "world \<Rightarrow> string \<Rightarrow> exn + json list" where
  "parsed_stocks w provider =
     (case LLMService_init w provider of
        Inl e \<Rightarrow> Inl e
      | Inr llm_service \<Rightarrow>
          (case generate_stock_data w llm_service of
             Inl e \<Rightarrow> Inl e
           | Inr response_data \<Rightarrow>
               (case py_get response_data ''stocks'' (JArr []) of
                  Inl e \<Rightarrow> Inl e
                | Inr stock_list \<Rightarrow> py_iter stock_list)))"

definition build_enriched :: "world \<Rightarrow> string \<Rightarrow> exn + json list" where
  "build_enriched w provider =
     (case parsed_stocks w provider of
        Inl e \<Rightarrow> Inl e
      | Inr stocks \<Rightarrow> enrich_loop w stocks [])"

definition generate_weekly_stocks :: "world \<Rightarrow> string \<Rightarrow> cache \<Rightarrow> gen_response \<times> cache" where
  "generate_weekly_stocks w provider weekly_stock_data =
     (case build_enriched w provider of
        Inr enriched_stock_list \<Rightarrow>
          (Generated ''Weekly stock data generated and enriched successfully''
             (length enriched_stock_list),
           \<lparr>last_updated = Some (now w), data = enriched_stock_list\<rparr>)
      | Inl e \<Rightarrow> (GenError (''An error occurred: '' @ message e), weekly_stock_data))"

subsection \<open>get\_daily\_stock\_data\<close>

record merged_stock =
  view_id :: string
  ticker :: json
  name :: json
  buy_sell_score :: json
  reason :: json
  price :: float64
  changePct :: float64

datatype daily_response = DailyError string | DailyData "merged_stock list"

text \<open>\<open>timedelta(days=7)\<close> in microseconds.\<close>

definition seven_days :: int where
  "seven_days = 7 * 24 * 60 * 60 * 1000000"

text \<open>\<open>((last_close - prev_close) / prev_close) * 100\<close>\<close>

definition percent_change :: "float64 \<Rightarrow> float64 \<Rightarrow> float64" where
  "percent_change prev_close last_close =
     fmul (fdiv (fsub last_close prev_close) prev_close) (Finite 100)"

text \<open>The text of \<open>{ticker}\<close> in the f-string.\<close>

definition format_ticker :: "world \<Rightarrow> json \<Rightarrow> string" where
  "format_ticker w t = (case t of JStr s \<Rightarrow> s | _ \<Rightarrow> py_str w t)"

text \<open>The dictionary appended to \<open>merged_data\<close> for one cached entry.\<close>

definition make_view :: "world \<Rightarrow> (string \<times> json) list \<Rightarrow> float64 list \<Rightarrow> merged_stock" where
  "make_view w stock history =
     (let ticker_str = dict_get stock ''ticker'' JNull;
          last_close = history ! (length history - 1);
          prev_close = history ! (length history - 2)
      in \<lparr>view_id = format_ticker w ticker_str @ ''-'' @ timestamp_str w (now w),
          ticker = ticker_str,
          name = dict_get stock ''name'' JNull,
          buy_sell_score = dict_get stock ''buy_sell_score'' (JInt 50),
          reason = dict_get stock ''reason'' (JStr []),
          price = np_round last_close 2,
          changePct = np_round (percent_change prev_close last_close) 2\<rparr>)"

text \<open>
  The loop over the cached entries; the last argument is \<open>merged_data\<close>. The lookup of the
  ticker is outside the \<open>try\<close>, the fetch inside.
\<close>

fun merge_loop :: "world \<Rightarrow> json list \<Rightarrow> merged_stock list \<Rightarrow> exn + merged_stock list" where
  "merge_loop w [] merged_data = Inr merged_data"
| "merge_loop w (stock # rest) merged_data =
     (case stock of
        JObj d \<Rightarrow>
          if \<not> truthy (dict_get d ''ticker'' JNull) then merge_loop w rest merged_data
          else (case ticker_history w (dict_get d ''ticker'' JNull) of
                  Inl e \<Rightarrow> merge_loop w rest merged_data
                | Inr history \<Rightarrow>
                    if length history < 2 then merge_loop w rest merged_data
                    else merge_loop w rest (merged_data @ [make_view w d history]))
      | _ \<Rightarrow> Inl (no_attribute stock ''get''))"

definition stale_message :: string where
  "stale_message = ''Weekly stock data is missing or outdated. '' @
     ''Please trigger the /generate-weekly-stocks endpoint manually.''"

text \<open>
  The endpoint returns its response and leaves the global as it is. \<open>Inl e\<close> is an
  exception that no handler of the function catches.
\<close>

definition get_daily_stock_data :: "world \<Rightarrow> cache \<Rightarrow> (exn + daily_response) \<times> cache" where
  "get_daily_stock_data w weekly_stock_data =
     (if data weekly_stock_data = [] then (Inr (DailyError stale_message), weekly_stock_data)
      else (case last_updated weekly_stock_data of
              None \<Rightarrow>
                (Inl (Exn TypeError
                   (''unsupported operand type(s) for -: 'datetime.datetime' and 'NoneType''
                      @ [CHR 0x27])),
                 weekly_stock_data)
            | Some t \<Rightarrow>
                if now w - t > seven_days
                then (Inr (DailyError stale_message), weekly_stock_data)
                else (case merge_loop w (data weekly_stock_data) [] of
                        Inl e \<Rightarrow> (Inl e, weekly_stock_data)
                      | Inr merged_data \<Rightarrow> (Inr (DailyData merged_data), weekly_stock_data))))"

section \<open>Notions used to state the properties\<close>

fun is_dict :: "json \<Rightarrow> bool" where
  "is_dict (JObj d) = True"
| "is_dict v = False"

text \<open>The value that \<open>stock.get("ticker")\<close> gives for a dictionary.\<close>

definition ticker_of :: "json \<Rightarrow> json" where
  "ticker_of stock = (case stock of JObj d \<Rightarrow> dict_get d ''ticker'' JNull | _ \<Rightarrow> JNull)"

text \<open>An entry without the key \<open>ticker\<close>.\<close>

fun lacks_ticker :: "json \<Rightarrow> bool" where
  "lacks_ticker (JObj d) = (map_of d ''ticker'' = None)"
| "lacks_ticker v = False"

text \<open>An entry that passes the test \<open>if not ticker_str: continue\<close>.\<close>

definition has_ticker :: "json \<Rightarrow> bool" where
  "has_ticker stock = truthy (ticker_of stock)"

text \<open>The name lookup for a ticker raises.\<close>

definition lookup_fails :: "world \<Rightarrow> json \<Rightarrow> bool" where
  "lookup_fails w t = (case ticker_info w t of Inl e \<Rightarrow> True | Inr info \<Rightarrow> False)"

text \<open>The name given to an entry: \<open>longName\<close> if the lookup has one, the ticker otherwise.\<close>

definition entry_name :: "world \<Rightarrow> json \<Rightarrow> json" where
  "entry_name w t =
     (case ticker_info w t of Inr info \<Rightarrow> dict_get info ''longName'' t | Inl e \<Rightarrow> t)"

text \<open>An entry with its \<open>name\<close> field set.\<close>

definition with_name :: "json \<Rightarrow> json \<Rightarrow> json" where
  "with_name n stock = (case stock of JObj d \<Rightarrow> JObj (AList.update ''name'' n d) | _ \<Rightarrow> stock)"

text \<open>The entry appended by the loop body for a dictionary that has a ticker.\<close>

definition enriched_entry :: "world \<Rightarrow> json \<Rightarrow> json" where
  "enriched_entry w s =
     (case s of JObj d \<Rightarrow> JObj (AList.update ''name'' (entry_name w (ticker_of s)) d) | _ \<Rightarrow> s)"

text \<open>The price fetch for a ticker returns at least two closes.\<close>

definition fetch_ok :: "world \<Rightarrow> json \<Rightarrow> bool" where
  "fetch_ok w t = (case ticker_history w t of Inr h \<Rightarrow> 2 \<le> length h | Inl e \<Rightarrow> False)"

definition closes :: "world \<Rightarrow> json \<Rightarrow> float64 list" where
  "closes w t = (case ticker_history w t of Inr h \<Rightarrow> h | Inl e \<Rightarrow> [])"

text \<open>A cached entry for which the merge produces a view, and that view.\<close>

definition served :: "world \<Rightarrow> json \<Rightarrow> bool" where
  "served w stock = (has_ticker stock \<and> fetch_ok w (ticker_of stock))"

definition view_of :: "world \<Rightarrow> json \<Rightarrow> merged_stock" where
  "view_of w stock =
     (case stock of
        JObj d \<Rightarrow> make_view w d (closes w (ticker_of stock))
      | _ \<Rightarrow> make_view w [] [])"

text \<open>
  The two decimal rules that the specification names for rounding to \<open>n\<close> places, on exact
  values: a tie goes to the even neighbour, or upwards.
\<close>

definition decimal_half_even :: "rat \<Rightarrow> nat \<Rightarrow> rat" where
  "decimal_half_even x n = of_int (round_half_even (x * 10 ^ n)) / 10 ^ n"

definition decimal_half_up :: "rat \<Rightarrow> nat \<Rightarrow> rat" where
  "decimal_half_up x n = of_int \<lfloor>x * 10 ^ n + 1 / 2\<rfloor> / 10 ^ n"

text \<open>The staleness test of the daily endpoint.\<close>

definition stale :: "world \<Rightarrow> cache \<Rightarrow> bool" where
  "stale w c =
     (data c = [] \<or> (case last_updated c of Some t \<Rightarrow> now w - t > seven_days | None \<Rightarrow> False))"

text \<open>
  The caches that the program can hold: the one at start-up, and those left by a call of
  either endpoint, whatever the collaborators do.
\<close>

inductive reachable :: "cache \<Rightarrow> bool" where
  start: "reachable initial_cache"
| generate: "reachable c \<Longrightarrow> reachable (snd (generate_weekly_stocks w provider c))"
| daily: "reachable c \<Longrightarrow> reachable (snd (get_daily_stock_data w c))"

definition cache_ok :: "cache \<Rightarrow> bool" where
  "cache_ok c =
     (list_all (\<lambda>s. is_dict s \<and> has_ticker s) (data c)
      \<and> (data c = [] \<or> last_updated c \<noteq> None))"

section \<open>A concrete environment for the examples\<close>

text \<open>
  The decoder below knows the documents of the examples and rejects every other text; it
  is used only on the texts shown. The OpenAI backend answers with a given text; in
  \<open>demo_world\<close> that text is the second document wrapped in commentary.
\<close>

definition demo_documents :: "(string \<times> json) list" where
  \<open>demo_documents =
     [(''{"stocks":[]}'', JObj [(''stocks'', JArr [])]),
      (''{"stocks":[{"score":10}]}'', JObj [(''stocks'', JArr [JObj [(''score'', JInt 10)]])]),
      (''{"stocks":[{"score":10},{"ticker":"ZZZ","score":10},{"ticker":"AAA","buy_sell_score":80,"reason":"up"}]}'',
       JObj [(''stocks'', JArr
         [JObj [(''score'', JInt 10)],
          JObj [(''ticker'', JStr ''ZZZ''), (''score'', JInt 10)],
          JObj [(''ticker'', JStr ''AAA''), (''buy_sell_score'', JInt 80),
                (''reason'', JStr ''up'')]])])]\<close>

definition demo_loads :: "string \<Rightarrow> exn + json" where
  "demo_loads s =
     (case map_of demo_documents s of
        Some v \<Rightarrow> Inr v
      | None \<Rightarrow> Inl (Exn JSONDecodeError ''Expecting value''))"

definition demo_answer :: string where
  \<open>demo_answer = ''Here you go: {"stocks":[{"score":10},{"ticker":"ZZZ","score":10},{"ticker":"AAA","buy_sell_score":80,"reason":"up"}]} Enjoy!''\<close>

definition demo_world_answering :: "string \<Rightarrow> world" where
  "demo_world_answering raw =
     \<lparr>getenv = (\<lambda>k. if k = ''OPENAI_API_KEY'' then Some ''sk-demo'' else None),
      openai_OpenAI = (\<lambda>k. Inr k),
      genai_init = (\<lambda>k. None),
      openai_create = (\<lambda>p. Inr (Some raw)),
      gemini_text = (\<lambda>p. Inl (Exn OtherError ''unreachable'')),
      json_loads = demo_loads,
      ticker_info = (\<lambda>t. if t = JStr ''AAA'' then Inr [(''longName'', JStr ''Triple A Corp'')]
                          else Inl (Exn OtherError ''lookup failed'')),
      ticker_history = (\<lambda>t. if t = JStr ''AAA'' then Inr [Finite 100, Finite 105]
                             else Inr [Finite 42]),
      now = 0,
      py_str = (\<lambda>v. ''?''),
      timestamp_str = (\<lambda>t. ''0.0'')\<rparr>"

definition demo_world :: world where
  "demo_world = demo_world_answering demo_answer"

text \<open>The cache that a generation in this environment leaves.\<close>

definition demo_cache :: cache where
  "demo_cache =
     \<lparr>last_updated = Some 0,
      data = [JObj [(''ticker'', JStr ''ZZZ''), (''score'', JInt 10), (''name'', JStr ''ZZZ'')],
              JObj [(''ticker'', JStr ''AAA''), (''buy_sell_score'', JInt 80),
                    (''reason'', JStr ''up''), (''name'', JStr ''Triple A Corp'')]]\<rparr>"

text \<open>The same environment with two closes for every ticker.\<close>

definition demo_world_all_priced :: world where
  "demo_world_all_priced =
     demo_world\<lparr>ticker_history := (\<lambda>t. Inr [Finite 100, Finite 105])\<rparr>"

text \<open>The same environment with the closes 40.0 and 45.75 for \<open>AAA\<close>.\<close>

definition demo_world_tie :: world where
  "demo_world_tie =
     demo_world\<lparr>ticker_history := (\<lambda>t. if t = JStr ''AAA'' then Inr [Finite 40, Finite (183 / 4)]
                                         else Inr [Finite 42])\<rparr>"

definition one_day :: int where
  "one_day = 24 * 60 * 60 * 1000000"

section \<open>Auxiliary facts\<close>

subsection \<open>Locating the JSON object\<close>

lemma str_find_absent: "c \<notin> set s \<Longrightarrow> str_find s c = - 1"
  by (simp add: str_find_def)

lemma str_rfind_absent: "c \<notin> set s \<Longrightarrow> str_rfind s c = - 1"
  by (simp add: str_rfind_def)

lemma str_find_first: "c \<notin> set pre \<Longrightarrow> str_find (pre @ c # rest) c = int (length pre)"
proof -
  assume a: "c \<notin> set pre"
  have "takeWhile (\<lambda>x. x \<noteq> c) (pre @ c # rest) = pre"
    using a by (induction pre) auto
  then show ?thesis by (simp add: str_find_def)
qed

lemma str_rfind_last:
  "c \<notin> set post \<Longrightarrow> str_rfind (front @ c # post) c = int (length front)"
proof -
  assume a: "c \<notin> set post"
  have "takeWhile (\<lambda>x. x \<noteq> c) (rev post @ c # rev front) = rev post"
    using a by (induction post rule: rev_induct) auto
  then show ?thesis by (simp add: str_rfind_def)
qed

lemma str_slice_middle:
  "str_slice (pre @ body @ post) (int (length pre)) (int (length pre + length body)) = body"
  by (simp add: str_slice_def slice_bound_def)

lemma extract_json_no_open:
  "CHR ''{'' \<notin> set raw \<Longrightarrow>
   extract_json w (Some raw) =
     Inl (Exn JSONDecodeError ''Could not find a JSON object in the response.'')"
  by (simp add: extract_json_def str_find_absent)

lemma extract_json_no_close:
  "CHR ''}'' \<notin> set raw \<Longrightarrow>
   extract_json w (Some raw) =
     Inl (Exn JSONDecodeError ''Could not find a JSON object in the response.'')"
  by (simp add: extract_json_def str_rfind_absent)

lemma extract_json_between:
  assumes "CHR ''{'' \<notin> set pre" and "CHR ''}'' \<notin> set post"
  shows "extract_json w (Some (pre @ ''{'' @ mid @ ''}'' @ post)) =
         json_loads w (''{'' @ mid @ ''}'')"
proof -
  let ?raw = "pre @ ''{'' @ mid @ ''}'' @ post"
  have f: "str_find ?raw (CHR ''{'') = int (length pre)"
    using assms(1) str_find_first [of "CHR ''{''" pre "mid @ ''}'' @ post"] by simp
  have r: "str_rfind ?raw (CHR ''}'') = int (length pre + 1 + length mid)"
    using assms(2) str_rfind_last [of "CHR ''}''" post "pre @ ''{'' @ mid"] by simp
  have s: "str_slice ?raw (int (length pre)) (int (length pre + 1 + length mid) + 1) =
           ''{'' @ mid @ ''}''"
    using str_slice_middle [of pre "''{'' @ mid @ ''}''" post] by (simp add: add.commute)
  show ?thesis
    unfolding extract_json_def using f r s by (simp add: Let_def)
qed

subsection \<open>Rounding to binary64\<close>

lemma pow2_powi: "pow2 e = 2 powi e"
  by (simp add: pow2_def power_int_def power_one_over inverse_eq_divide)

lemma pow2_pos: "0 < pow2 e"
  by (simp add: pow2_powi)

lemma pow2_add: "pow2 (x + y) = pow2 x * pow2 y"
  by (simp add: pow2_powi power_int_add)

lemma pow2_strict_mono: "x < y \<Longrightarrow> pow2 x < pow2 y"
  by (simp add: pow2_powi power_int_strict_increasing)

lemma pow2_mono: "x \<le> y \<Longrightarrow> pow2 x \<le> pow2 y"
  by (simp add: pow2_powi power_int_increasing)

lemma pow2_nat: "0 \<le> e \<Longrightarrow> pow2 e = 2 ^ nat e"
  by (simp add: pow2_def)

lemma bitlen_pos: "0 < x \<Longrightarrow> 1 \<le> bitlen x"
  by (auto simp: bitlen_alt_def)

lemma ilog2_bounds:
  assumes "0 < a"
  shows "pow2 (ilog2 a) \<le> a \<and> a < pow2 (ilog2 a + 1)"
proof (cases "1 \<le> a")
  case True
  let ?n = "\<lfloor>a\<rfloor>"
  from True have n: "0 < ?n" by simp
  then have b: "2 ^ nat (bitlen ?n - 1) \<le> ?n" "?n < 2 ^ nat (bitlen ?n)"
    using bitlen_bounds [of ?n] by simp_all
  have k: "1 \<le> bitlen ?n" using n by (rule bitlen_pos)
  have e: "ilog2 a = bitlen ?n - 1" using True by (simp add: ilog2_def)
  have "rat_of_int (2 ^ nat (bitlen ?n - 1)) \<le> rat_of_int ?n"
    using b(1) by (simp only: of_int_le_iff)
  also have "\<dots> \<le> a" by simp
  finally have lo: "pow2 (ilog2 a) \<le> a"
    using k by (simp add: e pow2_nat)
  have "?n + 1 \<le> 2 ^ nat (bitlen ?n)" using b(2) by simp
  then have "rat_of_int (?n + 1) \<le> rat_of_int (2 ^ nat (bitlen ?n))"
    by (simp only: of_int_le_iff)
  moreover have "a < rat_of_int (?n + 1)" by simp linarith
  ultimately have "a < rat_of_int (2 ^ nat (bitlen ?n))" by (rule less_le_trans [rotated])
  then have hi: "a < pow2 (ilog2 a + 1)"
    using k by (simp add: e pow2_nat)
  from lo hi show ?thesis ..
next
  case False
  let ?c = "\<lceil>1 / a\<rceil>"
  let ?k = "bitlen (?c - 1)"
  from False assms have inv: "1 < 1 / a" by simp
  then have c: "2 \<le> ?c" by (simp add: le_ceiling_iff)
  then have p: "0 < ?c - 1" by simp
  then have b: "2 ^ nat (?k - 1) \<le> ?c - 1" "?c - 1 < 2 ^ nat ?k"
    using bitlen_bounds [of "?c - 1"] by simp_all
  have k: "1 \<le> ?k" using p by (rule bitlen_pos)
  have e: "ilog2 a = - ?k" using False by (simp add: ilog2_def)
  have "?c \<le> 2 ^ nat ?k" using b(2) by simp
  then have "rat_of_int ?c \<le> rat_of_int (2 ^ nat ?k)" by (simp only: of_int_le_iff)
  moreover have "1 / a \<le> rat_of_int ?c" by simp
  ultimately have "1 / a \<le> rat_of_int (2 ^ nat ?k)" by (rule order_trans [rotated])
  then have "1 / a \<le> 2 ^ nat ?k" by simp
  then have "1 / 2 ^ nat ?k \<le> a"
    using assms by (simp add: field_simps)
  moreover have "pow2 (- ?k) = 1 / 2 ^ nat ?k" using k by (simp add: pow2_def)
  ultimately have lo: "pow2 (ilog2 a) \<le> a" by (simp add: e)
  have "rat_of_int (2 ^ nat (?k - 1)) \<le> rat_of_int (?c - 1)"
    using b(1) by (simp only: of_int_le_iff)
  moreover have "rat_of_int (?c - 1) < 1 / a" by simp linarith
  ultimately have "rat_of_int (2 ^ nat (?k - 1)) < 1 / a" by (rule le_less_trans)
  then have "2 ^ nat (?k - 1) < 1 / a" by simp
  then have "a < 1 / 2 ^ nat (?k - 1)"
    using assms by (simp add: field_simps)
  moreover have "pow2 (- ?k + 1) = 1 / 2 ^ nat (?k - 1)"
  proof (cases "?k = 1")
    case True
    then show ?thesis by (simp add: pow2_def)
  next
    case False
    with k have "- ?k + 1 < 0" by simp
    then show ?thesis by (simp add: pow2_def)
  qed
  ultimately have hi: "a < pow2 (ilog2 a + 1)" by (simp add: e)
  from lo hi show ?thesis ..
qed

lemma ilog2_eqI:
  assumes "pow2 e \<le> a" and "a < pow2 (e + 1)"
  shows "ilog2 a = e"
proof -
  have "0 < a" using assms(1) pow2_pos [of e] by simp
  then have b: "pow2 (ilog2 a) \<le> a" "a < pow2 (ilog2 a + 1)"
    using ilog2_bounds by simp_all
  have "\<not> e < ilog2 a"
  proof
    assume "e < ilog2 a"
    then have "pow2 (e + 1) \<le> pow2 (ilog2 a)" by (intro pow2_mono) simp
    with b(1) assms(2) show False by simp
  qed
  moreover have "\<not> ilog2 a < e"
  proof
    assume "ilog2 a < e"
    then have "pow2 (ilog2 a + 1) \<le> pow2 e" by (intro pow2_mono) simp
    with b(2) assms(1) show False by simp
  qed
  ultimately show ?thesis by simp
qed

lemma round_half_even_eqI:
  assumes "2 * \<bar>x - of_int m\<bar> < 1"
  shows "round_half_even x = m"
proof (cases "of_int m \<le> x")
  case True
  with assms have "\<lfloor>x\<rfloor> = m" by (intro floor_unique) (simp_all add: abs_if split: if_splits)
  with assms True show ?thesis by (simp add: round_half_even_def Let_def)
next
  case False
  with assms have "\<lfloor>x\<rfloor> = m - 1" by (intro floor_unique) (simp_all add: abs_if split: if_splits)
  with assms False show ?thesis by (simp add: round_half_even_def Let_def)
qed

lemma round_to_double_normal:
  assumes "pow2 e \<le> a" and "a < pow2 (e + 1)" and "- 1022 \<le> e" and "e \<le> 1022"
      and "2 * \<bar>a / pow2 (e - 52) - of_int m\<bar> < 1"
  shows "round_to_double a = Finite (of_int m * pow2 (e - 52))"
    and "round_to_double (- a) = Finite (- (of_int m * pow2 (e - 52)))"
proof -
  let ?ulp = "pow2 (e - 52)"
  have a: "0 < a" using assms(1) pow2_pos [of e] by simp
  have i: "ilog2 a = e" using assms(1,2) by (rule ilog2_eqI)
  have ex: "max (ilog2 a) (- 1022) = e" using assms(3) by (simp add: i)
  have m: "round_half_even (a / ?ulp) = m" using assms(5) by (rule round_half_even_eqI)
  have u: "0 < ?ulp" by (rule pow2_pos)
  have "e = 52 + (e - 52)" "e + 1 = 53 + (e - 52)" by simp_all
  then have split: "pow2 e = pow2 52 * ?ulp" "pow2 (e + 1) = pow2 53 * ?ulp"
    using pow2_add by metis+
  have "pow2 52 * ?ulp \<le> a" using assms(1) by (simp only: split(1))
  then have "pow2 52 \<le> a / ?ulp" using u by (simp add: field_simps)
  moreover have "a < pow2 53 * ?ulp" using assms(2) by (simp only: split(2))
  then have "a / ?ulp < pow2 53" using u by (simp add: field_simps)
  ultimately have "pow2 52 - 1 / 2 < rat_of_int m" "rat_of_int m < pow2 53 + 1 / 2"
    using assms(5) by (simp_all add: abs_if split: if_splits)
  then have "rat_of_int (2 ^ 52 - 1) < rat_of_int m" "rat_of_int m < rat_of_int (2 ^ 53 + 1)"
    by (simp_all add: pow2_def)
  then have "2 ^ 52 - 1 < m" "m < 2 ^ 53 + 1"
    by (simp_all only: of_int_less_iff)
  then have mb: "2 ^ 52 \<le> m" "m \<le> 2 ^ 53" by simp_all
  then have mpos: "0 < rat_of_int m" by simp
  have "rat_of_int m \<le> rat_of_int (2 ^ 53)" using mb(2) by (simp only: of_int_le_iff)
  then have "rat_of_int m \<le> pow2 53" by (simp add: pow2_def)
  then have "rat_of_int m * ?ulp \<le> pow2 53 * ?ulp"
    using u by simp
  then have "rat_of_int m * ?ulp \<le> pow2 (e + 1)"
    by (simp only: split(2))
  also have "\<dots> < pow2 1024" using assms(4) by (intro pow2_strict_mono) simp
  finally have lt: "rat_of_int m * ?ulp < pow2 1024" .
  have nz: "rat_of_int m * ?ulp \<noteq> 0" using mpos u by simp
  show "round_to_double a = Finite (of_int m * pow2 (e - 52))"
    using a lt nz by (simp add: round_to_double_def ex m Let_def)
  show "round_to_double (- a) = Finite (- (of_int m * pow2 (e - 52)))"
    using a lt nz by (simp add: round_to_double_def ex m Let_def)
qed

text \<open>The operations on finite non-zero values are the exact operation followed by rounding.\<close>

lemma fsub_Finite:
  "y \<noteq> 0 \<Longrightarrow> x \<noteq> y \<Longrightarrow> fsub (Finite x) (Finite y) = round_to_double (x - y)"
  by (simp add: fsub_def fadd_def)

lemma fmul_Finite:
  "x \<noteq> 0 \<Longrightarrow> y \<noteq> 0 \<Longrightarrow> fmul (Finite x) (Finite y) = round_to_double (x * y)"
  by (simp add: fmul_def)

lemma fdiv_Finite:
  "x \<noteq> 0 \<Longrightarrow> y \<noteq> 0 \<Longrightarrow> fdiv (Finite x) (Finite y) = round_to_double (x / y)"
  by (simp add: fdiv_def)

lemma rint_Finite:
  "2 * \<bar>q - of_int m\<bar> < 1 \<Longrightarrow> m \<noteq> 0 \<Longrightarrow> rint (Finite q) = Finite (of_int m)"
  by (simp add: round_half_even_eqI)

subsection \<open>The arithmetic of the examples\<close>

text \<open>The closes 100.0 and 105.0.\<close>

lemma change_100_105_sub: "fsub (Finite 105) (Finite 100) = Finite 5"
  using round_to_double_normal(1) [of "2" "105 - 100" "5629499534213120"]
  by (simp add: fsub_Finite pow2_def)

lemma change_100_105_div: "fdiv (Finite 5) (Finite 100) = Finite (3602879701896397 / 72057594037927936)"
  using round_to_double_normal(1) [of "- 5" "5 / 100" "7205759403792794"]
  by (simp add: fdiv_Finite pow2_def)

lemma change_100_105_mul: "fmul (Finite (3602879701896397 / 72057594037927936)) (Finite 100) = Finite 5"
  using round_to_double_normal(1) [of "2" "(3602879701896397 / 72057594037927936) * 100" "5629499534213120"]
  by (simp add: fmul_Finite pow2_def)

lemma change_100_105: "percent_change (Finite 100) (Finite 105) = Finite 5"
  by (simp add: percent_change_def change_100_105_sub change_100_105_div change_100_105_mul)

lemma round_5_scale: "fmul (Finite 5) (Finite 100) = Finite 500"
  using round_to_double_normal(1) [of "8" "5 * 100" "8796093022208000"]
  by (simp add: fmul_Finite pow2_def)

lemma round_5_rint: "rint (Finite 500) = Finite 500"
  using rint_Finite [of "500" "500"] by simp

lemma round_5_unscale: "fdiv (Finite 500) (Finite 100) = Finite 5"
  using round_to_double_normal(1) [of "2" "500 / 100" "5629499534213120"]
  by (simp add: fdiv_Finite pow2_def)

lemma round_5: "np_round (Finite 5) 2 = Finite 5"
  by (simp add: np_round_def round_5_scale round_5_rint round_5_unscale del: rint.simps)

lemma round_105_scale: "fmul (Finite 105) (Finite 100) = Finite 10500"
  using round_to_double_normal(1) [of "13" "105 * 100" "5772436045824000"]
  by (simp add: fmul_Finite pow2_def)

lemma round_105_rint: "rint (Finite 10500) = Finite 10500"
  using rint_Finite [of "10500" "10500"] by simp

lemma round_105_unscale: "fdiv (Finite 10500) (Finite 100) = Finite 105"
  using round_to_double_normal(1) [of "6" "10500 / 100" "7388718138654720"]
  by (simp add: fdiv_Finite pow2_def)

lemma round_105: "np_round (Finite 105) 2 = Finite 105"
  by (simp add: np_round_def round_105_scale round_105_rint round_105_unscale del: rint.simps)

text \<open>The closes 40.0 and 45.75.\<close>

lemma change_40_4575_sub: "fsub (Finite (183 / 4)) (Finite 40) = Finite (23 / 4)"
  using round_to_double_normal(1) [of "2" "(183 / 4) - 40" "6473924464345088"]
  by (simp add: fsub_Finite pow2_def)

lemma change_40_4575_div: "fdiv (Finite (23 / 4)) (Finite 40) = Finite (2589569785738035 / 18014398509481984)"
  using round_to_double_normal(1) [of "- 3" "(23 / 4) / 40" "5179139571476070"]
  by (simp add: fdiv_Finite pow2_def)

lemma change_40_4575_mul: "fmul (Finite (2589569785738035 / 18014398509481984)) (Finite 100) = Finite (8092405580431359 / 562949953421312)"
  using round_to_double_normal(1) [of "3" "(2589569785738035 / 18014398509481984) * 100" "8092405580431359"]
  by (simp add: fmul_Finite pow2_def)

lemma change_40_4575: "percent_change (Finite 40) (Finite (183 / 4)) = Finite (8092405580431359 / 562949953421312)"
  by (simp add: percent_change_def change_40_4575_sub change_40_4575_div change_40_4575_mul)

lemma round_change_40_4575_scale: "fmul (Finite (8092405580431359 / 562949953421312)) (Finite 100) = Finite (6322191859711999 / 4398046511104)"
  using round_to_double_normal(1) [of "10" "(8092405580431359 / 562949953421312) * 100" "6322191859711999"]
  by (simp add: fmul_Finite pow2_def)

lemma round_change_40_4575_rint: "rint (Finite (6322191859711999 / 4398046511104)) = Finite 1437"
  using rint_Finite [of "(6322191859711999 / 4398046511104)" "1437"] by simp

lemma round_change_40_4575_unscale: "fdiv (Finite 1437) (Finite 100) = Finite (8089590830664253 / 562949953421312)"
  using round_to_double_normal(1) [of "3" "1437 / 100" "8089590830664253"]
  by (simp add: fdiv_Finite pow2_def)

lemma round_change_40_4575: "np_round (Finite (8092405580431359 / 562949953421312)) 2 = Finite (8089590830664253 / 562949953421312)"
  by (simp add: np_round_def round_change_40_4575_scale round_change_40_4575_rint round_change_40_4575_unscale del: rint.simps)

lemma round_4575_scale: "fmul (Finite (183 / 4)) (Finite 100) = Finite 4575"
  using round_to_double_normal(1) [of "12" "(183 / 4) * 100" "5030265697075200"]
  by (simp add: fmul_Finite pow2_def)

lemma round_4575_rint: "rint (Finite 4575) = Finite 4575"
  using rint_Finite [of "4575" "4575"] by simp

lemma round_4575_unscale: "fdiv (Finite 4575) (Finite 100) = Finite (183 / 4)"
  using round_to_double_normal(1) [of "5" "4575 / 100" "6438740092256256"]
  by (simp add: fdiv_Finite pow2_def)

lemma round_4575: "np_round (Finite (183 / 4)) 2 = Finite (183 / 4)"
  by (simp add: np_round_def round_4575_scale round_4575_rint round_4575_unscale del: rint.simps)

text \<open>
  The close 2.675, that is the binary64 number nearest to it: the scaled value rounds to
  267.5, a tie that \<open>rint\<close> resolves to 268.
\<close>

lemma round_2675_scale:
  "fmul (Finite (3011782250804019 / 1125899906842624)) (Finite 100) = Finite (535 / 2)"
  using round_to_double_normal(1) [of "8" "(3011782250804019 / 1125899906842624) * 100" "4705909766881280"]
  by (simp add: fmul_Finite pow2_def)

lemma round_2675_rint: "rint (Finite (535 / 2)) = Finite 268"
proof -
  have "\<lfloor>535 / 2 :: rat\<rfloor> = 267" by (rule floor_unique) simp_all
  then show ?thesis by (simp add: round_half_even_def Let_def)
qed

lemma round_2675_unscale: "fdiv (Finite 268) (Finite 100) = Finite (6034823500676465 / 2251799813685248)"
  using round_to_double_normal(1) [of "1" "268 / 100" "6034823500676465"]
  by (simp add: fdiv_Finite pow2_def)

lemma round_2675:
  "np_round (Finite (3011782250804019 / 1125899906842624)) 2 = Finite (6034823500676465 / 2251799813685248)"
  by (simp add: np_round_def round_2675_scale round_2675_rint round_2675_unscale del: rint.simps)

lemma double_1438: "round_to_double (1438 / 100) = Finite (8095220330198467 / 562949953421312)"
  using round_to_double_normal(1) [of "3" "1438 / 100" "8095220330198467"] by (simp add: pow2_def)

subsection \<open>The enrichment loop\<close>

lemma is_dict_iff: "is_dict s \<longleftrightarrow> (\<exists>d. s = JObj d)"
  by (cases s) auto

lemma ticker_of_update_name [simp]:
  "ticker_of (JObj (AList.update ''name'' n d)) = ticker_of (JObj d)"
  by (simp add: ticker_of_def dict_get_def update_conv')

lemma lacks_ticker_not_has: "lacks_ticker s \<Longrightarrow> \<not> has_ticker s"
  by (cases s) (auto simp: has_ticker_def ticker_of_def dict_get_def)

lemma enrich_loop_step:
  "enrich_loop w (JObj d # rest) acc =
     (if has_ticker (JObj d)
      then enrich_loop w rest
             (acc @ [JObj (AList.update ''name'' (entry_name w (ticker_of (JObj d))) d)])
      else enrich_loop w rest acc)"
  by (simp add: has_ticker_def ticker_of_def entry_name_def split: sum.splits)

lemma enrich_loop_not_dict:
  "\<not> is_dict s \<Longrightarrow> enrich_loop w (s # rest) acc = Inl (no_attribute s ''get'')"
  by (cases s) auto

lemma enrich_loop_dicts:
  "list_all is_dict xs \<Longrightarrow>
   enrich_loop w xs acc = Inr (acc @ map (enriched_entry w) (filter has_ticker xs))"
proof (induction xs arbitrary: acc)
  case Nil
  then show ?case by simp
next
  case (Cons s xs)
  then obtain d where d: "s = JObj d" by (auto simp: is_dict_iff)
  from Cons have "list_all is_dict xs" by simp
  then show ?case
    using Cons.IH d by (simp add: enrich_loop_step enriched_entry_def del: enrich_loop.simps)
qed

lemma enrich_loop_Inr_dicts:
  "enrich_loop w xs acc = Inr out \<Longrightarrow> list_all is_dict xs"
proof (induction xs arbitrary: acc)
  case Nil
  then show ?case by simp
next
  case (Cons s xs)
  show ?case
  proof (cases "is_dict s")
    case False
    with Cons.prems show ?thesis by (simp add: enrich_loop_not_dict del: enrich_loop.simps)
  next
    case True
    then obtain d where d: "s = JObj d" by (auto simp: is_dict_iff)
    from Cons.prems d have "\<exists>acc'. enrich_loop w xs acc' = Inr out"
      by (auto simp: enrich_loop_step simp del: enrich_loop.simps split: if_splits)
    then have "list_all is_dict xs" using Cons.IH by blast
    with True show ?thesis by simp
  qed
qed

lemma enrich_loop_Inr:
  "enrich_loop w xs acc = Inr out \<Longrightarrow>
   out = acc @ map (enriched_entry w) (filter has_ticker xs)"
proof -
  assume a: "enrich_loop w xs acc = Inr out"
  then have "list_all is_dict xs" by (rule enrich_loop_Inr_dicts)
  then have "enrich_loop w xs acc = Inr (acc @ map (enriched_entry w) (filter has_ticker xs))"
    by (rule enrich_loop_dicts)
  with a show ?thesis by simp
qed

subsection \<open>The merge loop and the daily endpoint\<close>

lemma merge_loop_step:
  "merge_loop w (JObj d # rest) acc =
     (if served w (JObj d)
      then merge_loop w rest (acc @ [view_of w (JObj d)])
      else merge_loop w rest acc)"
  by (auto simp: served_def has_ticker_def ticker_of_def fetch_ok_def closes_def view_of_def
           split: sum.splits)

lemma merge_loop_not_dict:
  "\<not> is_dict s \<Longrightarrow> merge_loop w (s # rest) acc = Inl (no_attribute s ''get'')"
  by (cases s) auto

lemma merge_loop_dicts:
  "list_all is_dict xs \<Longrightarrow>
   merge_loop w xs acc = Inr (acc @ map (view_of w) (filter (served w) xs))"
proof (induction xs arbitrary: acc)
  case Nil
  then show ?case by simp
next
  case (Cons s xs)
  then obtain d where d: "s = JObj d" by (auto simp: is_dict_iff)
  from Cons have "list_all is_dict xs" by simp
  then show ?case
    using Cons.IH d by (simp add: merge_loop_step del: merge_loop.simps)
qed

lemma merge_loop_Inr_dicts:
  "merge_loop w xs acc = Inr out \<Longrightarrow> list_all is_dict xs"
proof (induction xs arbitrary: acc)
  case Nil
  then show ?case by simp
next
  case (Cons s xs)
  show ?case
  proof (cases "is_dict s")
    case False
    with Cons.prems show ?thesis by (simp add: merge_loop_not_dict del: merge_loop.simps)
  next
    case True
    then obtain d where d: "s = JObj d" by (auto simp: is_dict_iff)
    from Cons.prems d have "\<exists>acc'. merge_loop w xs acc' = Inr out"
      by (auto simp: merge_loop_step simp del: merge_loop.simps split: if_splits)
    then have "list_all is_dict xs" using Cons.IH by blast
    with True show ?thesis by simp
  qed
qed

lemma get_daily_stale:
  "stale w c \<Longrightarrow> get_daily_stock_data w c = (Inr (DailyError stale_message), c)"
  by (auto simp: stale_def get_daily_stock_data_def split: option.splits)

lemma get_daily_fresh:
  "\<not> stale w c \<Longrightarrow> last_updated c \<noteq> None \<Longrightarrow>
   get_daily_stock_data w c =
     (case merge_loop w (data c) [] of
        Inl e \<Rightarrow> (Inl e, c)
      | Inr merged \<Rightarrow> (Inr (DailyData merged), c))"
  by (auto simp: stale_def get_daily_stock_data_def split: option.splits)

lemma get_daily_no_timestamp:
  "data c \<noteq> [] \<Longrightarrow> last_updated c = None \<Longrightarrow> \<exists>e. get_daily_stock_data w c = (Inl e, c)"
  by (simp add: get_daily_stock_data_def)

lemma get_daily_keeps_cache: "snd (get_daily_stock_data w c) = c"
  by (simp add: get_daily_stock_data_def split: option.splits sum.splits)

lemma get_daily_error_iff:
  "(\<exists>msg. fst (get_daily_stock_data w c) = Inr (DailyError msg)) \<longleftrightarrow> stale w c"
  by (auto simp: stale_def get_daily_stock_data_def split: option.splits sum.splits)

lemma get_daily_data:
  assumes "fst (get_daily_stock_data w c) = Inr (DailyData views)"
  shows "views = map (view_of w) (filter (served w) (data c))"
    and "list_all is_dict (data c)"
proof -
  from assms have m: "merge_loop w (data c) [] = Inr views"
    by (auto simp: get_daily_stock_data_def split: option.splits sum.splits if_splits)
  show "list_all is_dict (data c)" using m by (rule merge_loop_Inr_dicts)
  then show "views = map (view_of w) (filter (served w) (data c))"
    using m merge_loop_dicts [where xs = "data c" and w = w and acc = "[]"] by simp
qed

lemma ticker_view_of: "is_dict s \<Longrightarrow> ticker (view_of w s) = ticker_of s"
  by (cases s) (simp_all add: view_of_def make_view_def ticker_of_def Let_def)

text \<open>Unfolding a run of the daily endpoint on the closes 100.0 and 105.0.\<close>

lemmas daily_defs = get_daily_stock_data_def dict_get_def make_view_def
  format_ticker_def change_100_105 round_5 round_105

section \<open>Generation: all or nothing\<close>

lemma generate_weekly_stocks_success:
  "build_enriched w provider = Inr enriched \<Longrightarrow>
   generate_weekly_stocks w provider c =
     (Generated ''Weekly stock data generated and enriched successfully'' (length enriched),
      \<lparr>last_updated = Some (now w), data = enriched\<rparr>)"
  by (simp add: generate_weekly_stocks_def)

lemma generate_weekly_stocks_failure:
  "build_enriched w provider = Inl e \<Longrightarrow>
   generate_weekly_stocks w provider c = (GenError (''An error occurred: '' @ message e), c)"
  by (simp add: generate_weekly_stocks_def)

text \<open>
  Claim C1. For every provider, every previous cache and every behaviour of the
  collaborators, \<open>generate_weekly_stocks\<close> ends in one of two ways: the cache is replaced
  as a whole by the new timestamp and the new enriched list, and the count returned is the
  length of that list; or an error is returned and the cache is the previous one. No other
  post-state exists.
\<close>

theorem generate_replaces_or_keeps:
  "(\<exists>enriched.
       generate_weekly_stocks w provider c =
         (Generated ''Weekly stock data generated and enriched successfully'' (length enriched),
          \<lparr>last_updated = Some (now w), data = enriched\<rparr>))
   \<or> (\<exists>msg. generate_weekly_stocks w provider c = (GenError msg, c))"
proof (cases "build_enriched w provider")
  case (Inl e)
  then show ?thesis
    using generate_weekly_stocks_failure by blast
next
  case (Inr enriched)
  then show ?thesis
    using generate_weekly_stocks_success by blast
qed

section \<open>Staleness\<close>

text \<open>Unfolding the concrete environment of the examples.\<close>

lemmas demo_defs = demo_world_def demo_world_answering_def demo_loads_def demo_documents_def
  demo_answer_def demo_cache_def one_day_def seven_days_def demo_world_all_priced_def
  demo_world_tie_def

text \<open>
  Claim C2. The daily endpoint answers with the error object exactly when the cached list is
  empty or more than seven days have passed since \<open>last_updated\<close>. It never writes the
  cache, and its answer does not depend on the environment variables, the LLM backends,
  the JSON decoder or the name lookup: nothing is regenerated.
\<close>

theorem staleness_error_iff:
  "((\<exists>msg. fst (get_daily_stock_data w c) = Inr (DailyError msg)) \<longleftrightarrow>
      (data c = [] \<or> (\<exists>t. last_updated c = Some t \<and> seven_days < now w - t)))
   \<and> snd (get_daily_stock_data w c) = c
   \<and> get_daily_stock_data
        (w\<lparr>getenv := g, openai_OpenAI := oc, genai_init := gi, openai_create := oa,
           gemini_text := gt, json_loads := jl, ticker_info := ti\<rparr>) c
       = get_daily_stock_data w c"
proof (intro conjI)
  show "(\<exists>msg. fst (get_daily_stock_data w c) = Inr (DailyError msg)) \<longleftrightarrow>
        (data c = [] \<or> (\<exists>t. last_updated c = Some t \<and> seven_days < now w - t))"
    unfolding get_daily_error_iff by (auto simp: stale_def split: option.splits)
  show "snd (get_daily_stock_data w c) = c" by (rule get_daily_keeps_cache)
  let ?w = "w\<lparr>getenv := g, openai_OpenAI := oc, genai_init := gi, openai_create := oa,
           gemini_text := gt, json_loads := jl, ticker_info := ti\<rparr>"
  have f: "format_ticker ?w t = format_ticker w t" for t
    by (cases t) (simp_all add: format_ticker_def)
  have v: "make_view ?w d h = make_view w d h" for d h
    by (simp add: make_view_def f)
  have m: "merge_loop ?w xs acc = merge_loop w xs acc" for xs acc
    by (induction xs arbitrary: acc) (simp_all add: v split: json.splits sum.splits)
  show "get_daily_stock_data ?w c = get_daily_stock_data w c"
    by (simp add: get_daily_stock_data_def m split: option.splits)
qed

text \<open>
  A cache written eight days ago gives the error; the same cache six days after its
  generation is merged.
\<close>

theorem staleness_error_iff_witness:
  "fst (get_daily_stock_data (demo_world\<lparr>now := 8 * one_day\<rparr>) demo_cache)
     = Inr (DailyError stale_message)
   \<and> snd (get_daily_stock_data (demo_world\<lparr>now := 8 * one_day\<rparr>) demo_cache) = demo_cache
   \<and> fst (get_daily_stock_data (demo_world\<lparr>now := 6 * one_day\<rparr>) demo_cache)
     = Inr (DailyData
         [\<lparr>view_id = ''AAA-0.0'', ticker = JStr ''AAA'', name = JStr ''Triple A Corp'',
           buy_sell_score = JInt 80, reason = JStr ''up'', price = Finite 105,
           changePct = Finite 5\<rparr>])"
proof -
  have a: "fst (get_daily_stock_data (demo_world\<lparr>now := 8 * one_day\<rparr>) demo_cache)
     = Inr (DailyError stale_message)"
    by (simp add: get_daily_stock_data_def demo_defs)
  have b: "fst (get_daily_stock_data (demo_world\<lparr>now := 6 * one_day\<rparr>) demo_cache)
     = Inr (DailyData
         [\<lparr>view_id = ''AAA-0.0'', ticker = JStr ''AAA'', name = JStr ''Triple A Corp'',
           buy_sell_score = JInt 80, reason = JStr ''up'', price = Finite 105,
           changePct = Finite 5\<rparr>])"
    by (simp add: get_daily_stock_data_def demo_defs dict_get_def make_view_def
        format_ticker_def Let_def change_100_105 round_5 round_105)
  show ?thesis
    using staleness_error_iff [of "demo_world\<lparr>now := 8 * one_day\<rparr>" demo_cache] a b
    by simp
qed

section \<open>Extraction of the JSON object\<close>

text \<open>
  Claim C3. The text handed to the decoder is the part of the raw answer from its first
  opening brace through its last closing brace, and the outcome of the decoder on that
  part is the outcome of the extraction; a raw answer without an opening brace makes the
  extraction fail with an error.
\<close>

theorem json_extraction:
  "(CHR ''{'' \<notin> set raw \<longrightarrow>
      on_JSONDecodeError (extract_json w (Some raw)) =
        Inl (Exn PlainException ''Failed to decode JSON from LLM response.''))
   \<and> (CHR ''{'' \<notin> set pre \<and> CHR ''}'' \<notin> set post \<longrightarrow>
      extract_json w (Some (pre @ ''{'' @ mid @ ''}'' @ post)) =
        json_loads w (''{'' @ mid @ ''}''))"
proof (intro conjI impI)
  assume "CHR ''{'' \<notin> set raw"
  then show "on_JSONDecodeError (extract_json w (Some raw)) =
      Inl (Exn PlainException ''Failed to decode JSON from LLM response.'')"
    by (simp add: extract_json_no_open on_JSONDecodeError_def)
next
  assume "CHR ''{'' \<notin> set pre \<and> CHR ''}'' \<notin> set post"
  then show "extract_json w (Some (pre @ ''{'' @ mid @ ''}'' @ post)) =
      json_loads w (''{'' @ mid @ ''}'')"
    by (intro extract_json_between) simp_all
qed

text \<open>
  The answer \<open>noise{"stocks":[]}more noise\<close> yields the object with the empty list under
  \<open>stocks\<close>; an answer without braces yields the error.
\<close>

theorem json_extraction_witness:
  \<open>CHR ''{'' \<notin> set ''no json here''
   \<and> on_JSONDecodeError (extract_json demo_world (Some ''no json here'')) =
        Inl (Exn PlainException ''Failed to decode JSON from LLM response.'')
   \<and> CHR ''{'' \<notin> set ''noise'' \<and> CHR ''}'' \<notin> set ''more noise''
   \<and> on_JSONDecodeError (extract_json demo_world (Some ''noise{"stocks":[]}more noise'')) =
        Inr (JObj [(''stocks'', JArr [])])\<close>
proof -
  have l: \<open>json_loads demo_world ''{"stocks":[]}'' = Inr (JObj [(''stocks'', JArr [])])\<close>
    by (simp add: demo_defs)
  show ?thesis
    using json_extraction [of "''no json here''" demo_world "''noise''" "''more noise''"
        \<open>''"stocks":[]''\<close>] l
    by (simp add: on_JSONDecodeError_def)
qed

section \<open>The two failures of the extraction\<close>

text \<open>
  Claim C9, as stated, does not hold. The check for a missing brace raises a
  \<open>JSONDecodeError\<close> inside the \<open>try\<close> block whose handler also catches the decoder's
  \<open>JSONDecodeError\<close>, and the handler raises one and the same exception for both. An
  answer without braces and an answer whose braces enclose \<open>x\<close> give the same error to
  the caller of \<open>generate_stock_data\<close> and the same response of the endpoint.
\<close>

theorem json_failures_not_distinguished:
  \<open>generate_stock_data (demo_world_answering ''no json here'') ''openai'' =
     Inl (Exn PlainException ''Failed to decode JSON from LLM response.'')
   \<and> generate_stock_data (demo_world_answering ''{x}'') ''openai'' =
     Inl (Exn PlainException ''Failed to decode JSON from LLM response.'')
   \<and> generate_weekly_stocks (demo_world_answering ''no json here'') ''openai'' demo_cache =
     (GenError ''An error occurred: Failed to decode JSON from LLM response.'', demo_cache)
   \<and> generate_weekly_stocks (demo_world_answering ''{x}'') ''openai'' demo_cache =
     (GenError ''An error occurred: Failed to decode JSON from LLM response.'', demo_cache)\<close>
  by (simp add: generate_weekly_stocks_def build_enriched_def parsed_stocks_def
      LLMService_init_def str_lower_def lower_char_def generate_stock_data_def call_openai_def
      extract_json_def on_JSONDecodeError_def str_find_def str_rfind_def str_slice_def
      slice_bound_def demo_defs)

text \<open>
  Claim C9, amended. Whether a brace is missing or the decoder rejects the extracted text,
  the extraction raises the same exception, with the message
  \<open>Failed to decode JSON from LLM response.\<close>
\<close>

theorem json_failures_same_error:
  assumes "CHR ''{'' \<notin> set raw \<or> CHR ''}'' \<notin> set raw
           \<or> (\<exists>m. json_loads w
                  (str_slice raw (str_find raw (CHR ''{'')) (str_rfind raw (CHR ''}'') + 1))
                = Inl (Exn JSONDecodeError m))"
  shows "on_JSONDecodeError (extract_json w (Some raw)) =
           Inl (Exn PlainException ''Failed to decode JSON from LLM response.'')"
proof -
  consider (a) "CHR ''{'' \<notin> set raw" | (b) "CHR ''}'' \<notin> set raw"
    | (c) "CHR ''{'' \<in> set raw" "CHR ''}'' \<in> set raw"
          "\<exists>m. json_loads w
                  (str_slice raw (str_find raw (CHR ''{'')) (str_rfind raw (CHR ''}'') + 1))
                = Inl (Exn JSONDecodeError m)"
    using assms by blast
  then show ?thesis
  proof cases
    case a
    then show ?thesis by (simp add: extract_json_no_open on_JSONDecodeError_def)
  next
    case b
    then show ?thesis by (simp add: extract_json_no_close on_JSONDecodeError_def)
  next
    case c
    then obtain m where m: "json_loads w
        (str_slice raw (str_find raw (CHR ''{'')) (str_rfind raw (CHR ''}'') + 1))
        = Inl (Exn JSONDecodeError m)" by blast
    have "extract_json w (Some raw) = Inl (Exn JSONDecodeError m)
          \<or> extract_json w (Some raw) =
              Inl (Exn JSONDecodeError ''Could not find a JSON object in the response.'')"
      using m by (simp add: extract_json_def Let_def)
    then show ?thesis by (auto simp: on_JSONDecodeError_def)
  qed
qed

theorem json_failures_same_error_witness:
  \<open>CHR ''{'' \<notin> set ''no json here''
   \<and> on_JSONDecodeError (extract_json demo_world (Some ''no json here'')) =
        Inl (Exn PlainException ''Failed to decode JSON from LLM response.'')
   \<and> json_loads demo_world
        (str_slice ''{x}'' (str_find ''{x}'' (CHR ''{'')) (str_rfind ''{x}'' (CHR ''}'') + 1))
      = Inl (Exn JSONDecodeError ''Expecting value'')
   \<and> on_JSONDecodeError (extract_json demo_world (Some ''{x}'')) =
        Inl (Exn PlainException ''Failed to decode JSON from LLM response.'')\<close>
proof -
  have l: \<open>json_loads demo_world
        (str_slice ''{x}'' (str_find ''{x}'' (CHR ''{'')) (str_rfind ''{x}'' (CHR ''}'') + 1))
      = Inl (Exn JSONDecodeError ''Expecting value'')\<close>
    by (simp add: str_find_def str_rfind_def str_slice_def slice_bound_def demo_defs)
  have n: "CHR ''{'' \<notin> set ''no json here''" by simp
  show ?thesis
    using json_failures_same_error [of "''no json here''" demo_world]
      json_failures_same_error [of "''{x}''" demo_world] l n
    by blast
qed

section \<open>Entries without a ticker\<close>

lemma generate_Generated:
  assumes "parsed_stocks w provider = Inr stocks"
      and "generate_weekly_stocks w provider c = (Generated msg n, c')"
  shows "enrich_loop w stocks [] = Inr (data c') \<and> n = length (data c')"
  using assms
  by (auto simp: generate_weekly_stocks_def build_enriched_def split: sum.splits)

lemma has_ticker_enriched_entry:
  "is_dict s \<Longrightarrow> has_ticker (enriched_entry w s) = has_ticker s"
  by (cases s) (simp_all add: enriched_entry_def has_ticker_def)

lemma filter_has_ticker_not_lacking:
  "filter has_ticker (filter (\<lambda>s. \<not> lacks_ticker s) xs) = filter has_ticker xs"
  by (induction xs) (auto dest: lacks_ticker_not_has)

text \<open>Unfolding a run of the generation up to the loop.\<close>

lemmas run_defs = generate_weekly_stocks_def build_enriched_def parsed_stocks_def
  LLMService_init_def str_lower_def lower_char_def generate_stock_data_def call_openai_def
  extract_json_def on_JSONDecodeError_def str_find_def str_rfind_def str_slice_def
  slice_bound_def dict_get_def

text \<open>
  Claim C4. When a generation succeeds on the parsed list \<open>stocks\<close>, the list written to
  the cache is the one obtained from \<open>stocks\<close> with every entry that has no \<open>ticker\<close> key
  removed beforehand; the count returned is the length of the cached list; no cached entry
  lacks a ticker; and the entries without a ticker add nothing to the count.
\<close>

theorem ticker_less_entries_excluded:
  assumes "parsed_stocks w provider = Inr stocks"
      and "generate_weekly_stocks w provider c = (Generated msg n, c')"
  shows "enrich_loop w (filter (\<lambda>s. \<not> lacks_ticker s) stocks) [] = Inr (data c')
       \<and> n = length (data c')
       \<and> list_all (\<lambda>e. \<not> lacks_ticker e) (data c')
       \<and> length (data c') \<le> length (filter (\<lambda>s. \<not> lacks_ticker s) stocks)"
proof -
  let ?kept = "filter (\<lambda>s. \<not> lacks_ticker s) stocks"
  from assms have run: "enrich_loop w stocks [] = Inr (data c')" and n: "n = length (data c')"
    using generate_Generated by blast+
  from run have dicts: "list_all is_dict stocks" by (rule enrich_loop_Inr_dicts)
  from run have out: "data c' = map (enriched_entry w) (filter has_ticker stocks)"
    using enrich_loop_Inr by fastforce
  have "list_all is_dict ?kept" using dicts by (simp add: list_all_iff)
  then have "enrich_loop w ?kept [] = Inr ([] @ map (enriched_entry w) (filter has_ticker ?kept))"
    by (rule enrich_loop_dicts)
  then have 1: "enrich_loop w ?kept [] = Inr (data c')"
    by (simp only: out filter_has_ticker_not_lacking append_Nil)
  have "\<not> lacks_ticker (enriched_entry w s)" if "s \<in> set (filter has_ticker stocks)" for s
  proof -
    from that dicts have "is_dict s" "has_ticker s" by (auto simp: list_all_iff)
    then have "has_ticker (enriched_entry w s)" by (simp add: has_ticker_enriched_entry)
    then show ?thesis using lacks_ticker_not_has by blast
  qed
  then have 3: "list_all (\<lambda>e. \<not> lacks_ticker e) (data c')"
    unfolding out by (simp add: list_all_iff)
  have "length (data c') = length (filter has_ticker ?kept)"
    by (simp only: out filter_has_ticker_not_lacking length_map)
  moreover have "length (filter has_ticker ?kept) \<le> length ?kept"
    by (rule length_filter_le)
  ultimately have 4: "length (data c') \<le> length ?kept" by (rule ord_eq_le_trans)
  from 1 n 3 4 show ?thesis by blast
qed

text \<open>The parsed list with the single entry \<open>{"score": 10}\<close> gives the empty list and the count 0.\<close>

theorem ticker_less_entries_excluded_witness:
  \<open>parsed_stocks (demo_world_answering ''{"stocks":[{"score":10}]}'') ''openai''
     = Inr [JObj [(''score'', JInt 10)]]
   \<and> generate_weekly_stocks (demo_world_answering ''{"stocks":[{"score":10}]}'') ''openai''
        demo_cache
     = (Generated ''Weekly stock data generated and enriched successfully'' 0,
        \<lparr>last_updated = Some 0, data = []\<rparr>)
   \<and> enrich_loop (demo_world_answering ''{"stocks":[{"score":10}]}'')
        (filter (\<lambda>s. \<not> lacks_ticker s) [JObj [(''score'', JInt 10)]]) [] = Inr []\<close>
proof -
  have p: \<open>parsed_stocks (demo_world_answering ''{"stocks":[{"score":10}]}'') ''openai''
     = Inr [JObj [(''score'', JInt 10)]]\<close>
    by (simp add: run_defs demo_defs)
  have g: \<open>generate_weekly_stocks (demo_world_answering ''{"stocks":[{"score":10}]}'') ''openai''
        demo_cache
     = (Generated ''Weekly stock data generated and enriched successfully'' 0,
        \<lparr>last_updated = Some 0, data = []\<rparr>)\<close>
    by (simp add: run_defs demo_defs)
  show ?thesis
    using ticker_less_entries_excluded [OF p g] p g by simp
qed

section \<open>Failure of the name lookup\<close>

lemma enriched_entry_with_name:
  "enriched_entry w s = with_name (entry_name w (ticker_of s)) s"
  by (cases s) (simp_all add: enriched_entry_def with_name_def)

lemma entry_name_lookup_fails: "lookup_fails w t \<Longrightarrow> entry_name w t = t"
  by (simp add: lookup_fails_def entry_name_def split: sum.splits)

text \<open>
  Claim C5. Let the parsed list consist of dictionaries. Whatever the name lookups do, the
  generation succeeds, and the cached list holds, in order, every entry that has a ticker
  (one that passes the test \<open>if not ticker_str\<close>), each with its \<open>name\<close> field set; where
  the lookup for the entry's ticker raises, the name is the ticker itself. A failed lookup
  neither aborts the batch nor removes any entry.
\<close>

theorem lookup_failure_falls_back:
  assumes "parsed_stocks w provider = Inr stocks" and "list_all is_dict stocks"
  shows "\<exists>out. generate_weekly_stocks w provider c =
                 (Generated ''Weekly stock data generated and enriched successfully''
                    (length out),
                  \<lparr>last_updated = Some (now w), data = out\<rparr>)
          \<and> list_all2
               (\<lambda>s e. (\<exists>n. e = with_name n s)
                      \<and> (lookup_fails w (ticker_of s) \<longrightarrow> e = with_name (ticker_of s) s))
               (filter has_ticker stocks) out"
proof -
  let ?out = "map (enriched_entry w) (filter has_ticker stocks)"
  from assms(2) have "enrich_loop w stocks [] = Inr ([] @ ?out)"
    by (rule enrich_loop_dicts)
  with assms(1) have "build_enriched w provider = Inr ?out"
    by (simp add: build_enriched_def)
  then have g: "generate_weekly_stocks w provider c =
      (Generated ''Weekly stock data generated and enriched successfully'' (length ?out),
       \<lparr>last_updated = Some (now w), data = ?out\<rparr>)"
    by (rule generate_weekly_stocks_success)
  have "list_all2
          (\<lambda>s e. (\<exists>n. e = with_name n s)
                 \<and> (lookup_fails w (ticker_of s) \<longrightarrow> e = with_name (ticker_of s) s))
          (filter has_ticker stocks) ?out"
    unfolding list_all2_map2
    by (rule list_all2_refl) (auto simp: enriched_entry_with_name entry_name_lookup_fails)
  with g show ?thesis by blast
qed

text \<open>
  The lookup for \<open>ZZZ\<close> raises and its entry is cached with the name \<open>ZZZ\<close>; the entry
  for \<open>AAA\<close> is cached with the name found.
\<close>

theorem lookup_failure_falls_back_witness:
  "parsed_stocks demo_world ''openai'' =
     Inr [JObj [(''score'', JInt 10)],
          JObj [(''ticker'', JStr ''ZZZ''), (''score'', JInt 10)],
          JObj [(''ticker'', JStr ''AAA''), (''buy_sell_score'', JInt 80),
                (''reason'', JStr ''up'')]]
   \<and> lookup_fails demo_world (JStr ''ZZZ'')
   \<and> generate_weekly_stocks demo_world ''openai'' initial_cache =
       (Generated ''Weekly stock data generated and enriched successfully'' 2,
        \<lparr>last_updated = Some 0,
         data = [JObj [(''ticker'', JStr ''ZZZ''), (''score'', JInt 10), (''name'', JStr ''ZZZ'')],
                 JObj [(''ticker'', JStr ''AAA''), (''buy_sell_score'', JInt 80),
                       (''reason'', JStr ''up''), (''name'', JStr ''Triple A Corp'')]]\<rparr>)"
proof -
  let ?stocks = "[JObj [(''score'', JInt 10)],
          JObj [(''ticker'', JStr ''ZZZ''), (''score'', JInt 10)],
          JObj [(''ticker'', JStr ''AAA''), (''buy_sell_score'', JInt 80),
                (''reason'', JStr ''up'')]]"
  have p: "parsed_stocks demo_world ''openai'' = Inr ?stocks"
    by (simp add: run_defs demo_defs)
  have d: "list_all is_dict ?stocks" by simp
  have f: "lookup_fails demo_world (JStr ''ZZZ'')"
    by (simp add: lookup_fails_def demo_defs)
  have t: "filter has_ticker ?stocks =
      [JObj [(''ticker'', JStr ''ZZZ''), (''score'', JInt 10)],
       JObj [(''ticker'', JStr ''AAA''), (''buy_sell_score'', JInt 80),
             (''reason'', JStr ''up'')]]"
    by (simp add: has_ticker_def ticker_of_def dict_get_def)
  from lookup_failure_falls_back [OF p d, of initial_cache]
  obtain out where
    g: "generate_weekly_stocks demo_world ''openai'' initial_cache =
          (Generated ''Weekly stock data generated and enriched successfully'' (length out),
           \<lparr>last_updated = Some (now demo_world), data = out\<rparr>)"
    and l: "list_all2
               (\<lambda>s e. (\<exists>n. e = with_name n s)
                      \<and> (lookup_fails demo_world (ticker_of s) \<longrightarrow> e = with_name (ticker_of s) s))
               (filter has_ticker ?stocks) out"
    by blast
  have e: "generate_weekly_stocks demo_world ''openai'' initial_cache =
       (Generated ''Weekly stock data generated and enriched successfully'' 2,
        \<lparr>last_updated = Some 0,
         data = [JObj [(''ticker'', JStr ''ZZZ''), (''score'', JInt 10), (''name'', JStr ''ZZZ'')],
                 JObj [(''ticker'', JStr ''AAA''), (''buy_sell_score'', JInt 80),
                       (''reason'', JStr ''up''), (''name'', JStr ''Triple A Corp'')]]\<rparr>)"
    by (simp add: run_defs demo_defs initial_cache_def)
  from p f e g show ?thesis by simp
qed

section \<open>Merge arithmetic\<close>

lemma view_of_two_closes:
  assumes "is_dict s" and "ticker_history w (ticker_of s) = Inr [prev_close, last_close]"
  shows "price (view_of w s) = np_round last_close 2"
    and "changePct (view_of w s) = np_round (percent_change prev_close last_close) 2"
  using assms by (cases s; simp add: view_of_def make_view_def closes_def Let_def)+

lemma rint_integral: "rint y = Finite q \<Longrightarrow> \<exists>k. q = of_int k"
proof (cases y)
  case (Finite p)
  assume "rint y = Finite q"
  with Finite have "q = of_int 0 \<or> q = of_int (round_half_even p)"
    by (auto simp: signed_zero_def split: if_splits)
  then show ?thesis by blast
qed simp_all

text \<open>
  The result of \<open>round(x, n)\<close> is \<open>NaN\<close>, an infinity, a zero, or the binary64 number
  nearest to a decimal with \<open>n\<close> places.
\<close>

lemma np_round_shape:
  "is_nan (np_round x n) \<or> is_inf (np_round x n) \<or> np_round x n = NegZero
   \<or> (\<exists>k. np_round x n = round_to_double (of_int k / 10 ^ n))"
proof (cases "rint (fmul x (Finite (10 ^ n)))")
  case (Finite q)
  then obtain k where k: "q = of_int k" using rint_integral by blast
  show ?thesis
  proof (cases "k = 0")
    case True
    then have "np_round x n = round_to_double (of_int 0 / 10 ^ n)"
      by (simp add: np_round_def Finite k fdiv_def signed_zero_def round_to_double_def)
    then show ?thesis by blast
  next
    case False
    then have "np_round x n = round_to_double (of_int k / 10 ^ n)"
      by (simp add: np_round_def Finite k fdiv_def)
    then show ?thesis by blast
  qed
next
  case NegZero
  then show ?thesis by (simp add: np_round_def fdiv_def signed_zero_def)
next
  case PInf
  then show ?thesis by (simp add: np_round_def fdiv_def signed_inf_def)
next
  case NInf
  then show ?thesis by (simp add: np_round_def fdiv_def signed_inf_def)
next
  case NaN
  then show ?thesis by (simp add: np_round_def fdiv_def)
qed

text \<open>
  Claim C6, as stated, does not hold: the arithmetic is binary floating point, not exact
  decimal arithmetic. For the closes 40.0 and 45.75 the exact change is 14.375, which both
  decimal rules round to 14.38; the endpoint returns the binary64 number nearest to 14.37,
  because the product computed before rounding is 14.374999999999998.
\<close>

theorem merge_arithmetic_not_decimal:
  "fst (get_daily_stock_data demo_world_tie demo_cache) =
     Inr (DailyData
       [\<lparr>view_id = ''AAA-0.0'', ticker = JStr ''AAA'', name = JStr ''Triple A Corp'',
         buy_sell_score = JInt 80, reason = JStr ''up'', price = Finite (183 / 4),
         changePct = Finite (8089590830664253 / 562949953421312)\<rparr>])
   \<and> ticker_history demo_world_tie (JStr ''AAA'') = Inr [Finite 40, Finite (183 / 4)]
   \<and> decimal_half_even ((183 / 4 - 40) / 40 * 100) 2 = 1438 / 100
   \<and> decimal_half_up ((183 / 4 - 40) / 40 * 100) 2 = 1438 / 100
   \<and> round_to_double (1438 / 100) = Finite (8095220330198467 / 562949953421312)
   \<and> (8089590830664253 / 562949953421312 :: rat) < 1438 / 100 - 1 / 200"
proof -
  have g: "fst (get_daily_stock_data demo_world_tie demo_cache) =
     Inr (DailyData
       [\<lparr>view_id = ''AAA-0.0'', ticker = JStr ''AAA'', name = JStr ''Triple A Corp'',
         buy_sell_score = JInt 80, reason = JStr ''up'', price = Finite (183 / 4),
         changePct = Finite (8089590830664253 / 562949953421312)\<rparr>])"
    by (simp add: get_daily_stock_data_def dict_get_def make_view_def format_ticker_def
        demo_defs Let_def change_40_4575 round_change_40_4575 round_4575)
  have h: "ticker_history demo_world_tie (JStr ''AAA'') = Inr [Finite 40, Finite (183 / 4)]"
    by (simp add: demo_defs)
  have "\<lfloor>2875 / 2 :: rat\<rfloor> = 1437" by (rule floor_unique) simp_all
  then have e: "decimal_half_even ((183 / 4 - 40) / 40 * 100) 2 = 1438 / 100"
    by (simp add: decimal_half_even_def round_half_even_def Let_def)
  have u: "decimal_half_up ((183 / 4 - 40) / 40 * 100) 2 = 1438 / 100"
    by (simp add: decimal_half_up_def)
  have l: "(8089590830664253 / 562949953421312 :: rat) < 1438 / 100 - 1 / 200"
    by simp
  from g h e u double_1438 l show ?thesis by blast
qed

text \<open>
  Claim C6, amended. When the daily endpoint returns views and the fetch for the ticker of
  a cached entry returns the two closes \<open>prev_close\<close>, \<open>last_close\<close>, a view for that ticker
  carries \<open>price = round(last_close, 2)\<close> and
  \<open>changePct = round(((last_close - prev_close) / prev_close) * 100, 2)\<close>, computed in
  binary64: every operation rounds its exact result to the nearest binary64 number, and
  \<open>round(x, 2)\<close> is \<open>rint(x * 100) / 100\<close>. The same rounding serves both fields; its
  result is \<open>NaN\<close>, an infinity, a zero, or the binary64 number nearest to a decimal with two
  places. A zero \<open>prev_close\<close> is not excluded: the change is then infinite or \<open>NaN\<close>.
\<close>

theorem merge_arithmetic:
  assumes "fst (get_daily_stock_data w c) = Inr (DailyData views)"
      and "stock \<in> set (data c)" and "has_ticker stock"
      and "ticker_history w (ticker_of stock) = Inr [prev_close, last_close]"
  shows "(\<exists>v\<in>set views. ticker v = ticker_of stock \<and> price v = np_round last_close 2
            \<and> changePct v =
                np_round (fmul (fdiv (fsub last_close prev_close) prev_close) (Finite 100)) 2)
       \<and> (\<forall>x. is_nan (np_round x 2) \<or> is_inf (np_round x 2) \<or> np_round x 2 = NegZero
                \<or> (\<exists>k. np_round x 2 = round_to_double (of_int k / 100)))"
proof
  from assms(1) have views: "views = map (view_of w) (filter (served w) (data c))"
    and dicts: "list_all is_dict (data c)"
    by (rule get_daily_data)+
  from dicts assms(2) have d: "is_dict stock" by (simp add: list_all_iff)
  have "served w stock"
    using assms(3,4) by (simp add: served_def fetch_ok_def)
  with assms(2) have "view_of w stock \<in> set views" by (simp add: views)
  moreover have "ticker (view_of w stock) = ticker_of stock"
    using d by (rule ticker_view_of)
  moreover have "price (view_of w stock) = np_round last_close 2"
    using d assms(4) by (rule view_of_two_closes)
  moreover have "changePct (view_of w stock) =
      np_round (fmul (fdiv (fsub last_close prev_close) prev_close) (Finite 100)) 2"
    using view_of_two_closes(2) [OF d assms(4)] by (simp add: percent_change_def)
  ultimately show "\<exists>v\<in>set views. ticker v = ticker_of stock \<and> price v = np_round last_close 2
            \<and> changePct v =
                np_round (fmul (fdiv (fsub last_close prev_close) prev_close) (Finite 100)) 2"
    by blast
  show "\<forall>x. is_nan (np_round x 2) \<or> is_inf (np_round x 2) \<or> np_round x 2 = NegZero
                \<or> (\<exists>k. np_round x 2 = round_to_double (of_int k / 100))"
    using np_round_shape [where n = 2] by simp
qed

text \<open>
  The closes 100.0 and 105.0 give the price 105.0 and the change 5.0; with a zero previous
  close the change is infinite.
\<close>

theorem merge_arithmetic_witness:
  "fst (get_daily_stock_data demo_world demo_cache) =
     Inr (DailyData
       [\<lparr>view_id = ''AAA-0.0'', ticker = JStr ''AAA'', name = JStr ''Triple A Corp'',
         buy_sell_score = JInt 80, reason = JStr ''up'', price = Finite 105,
         changePct = Finite 5\<rparr>])
   \<and> ticker_history demo_world (JStr ''AAA'') = Inr [Finite 100, Finite 105]
   \<and> np_round (Finite 105) 2 = Finite 105
   \<and> np_round (fmul (fdiv (fsub (Finite 105) (Finite 100)) (Finite 100)) (Finite 100)) 2
       = Finite 5
   \<and> np_round (fmul (fdiv (fsub (Finite 105) (Finite 0)) (Finite 0)) (Finite 100)) 2 = PInf"
proof -
  let ?stock = "JObj [(''ticker'', JStr ''AAA''), (''buy_sell_score'', JInt 80),
                    (''reason'', JStr ''up''), (''name'', JStr ''Triple A Corp'')]"
  have g: "fst (get_daily_stock_data demo_world demo_cache) =
     Inr (DailyData
       [\<lparr>view_id = ''AAA-0.0'', ticker = JStr ''AAA'', name = JStr ''Triple A Corp'',
         buy_sell_score = JInt 80, reason = JStr ''up'', price = Finite 105,
         changePct = Finite 5\<rparr>])"
    by (simp add: daily_defs demo_defs Let_def)
  have m: "?stock \<in> set (data demo_cache)" by (simp add: demo_defs)
  have t: "ticker_of ?stock = JStr ''AAA''" by (simp add: ticker_of_def dict_get_def)
  have h: "has_ticker ?stock" by (simp add: has_ticker_def t)
  have c: "ticker_history demo_world (ticker_of ?stock) = Inr [Finite 100, Finite 105]"
    by (simp add: t demo_defs)
  have z: "np_round (fmul (fdiv (fsub (Finite 105) (Finite 0)) (Finite 0)) (Finite 100)) 2 = PInf"
    by (simp add: np_round_def fsub_def fadd_def fdiv_def fmul_def signed_inf_def round_105_rint
        round_to_double_normal(1) [of 6 105 "105 * 2 ^ 46", simplified pow2_def, simplified])
  from merge_arithmetic [OF g m h c]
  have "np_round (Finite 105) 2 = Finite 105
      \<and> np_round (fmul (fdiv (fsub (Finite 105) (Finite 100)) (Finite 100)) (Finite 100)) 2
          = Finite 5"
    by (simp add: t)
  with g c t z show ?thesis by simp
qed

section \<open>Isolation of per-ticker failures\<close>

text \<open>
  Every cache the program can hold consists of dictionaries that have a ticker, and has a
  timestamp when it is not empty.
\<close>

lemma is_dict_enriched_entry: "is_dict s \<Longrightarrow> is_dict (enriched_entry w s)"
  by (cases s) (simp_all add: enriched_entry_def)

lemma cache_ok_initial: "cache_ok initial_cache"
  by (simp add: cache_ok_def initial_cache_def)

lemma cache_ok_generate:
  assumes "cache_ok c"
  shows "cache_ok (snd (generate_weekly_stocks w provider c))"
proof (cases "build_enriched w provider")
  case (Inl e)
  then show ?thesis using assms by (simp add: generate_weekly_stocks_failure)
next
  case (Inr out)
  then obtain stocks where run: "enrich_loop w stocks [] = Inr out"
    by (auto simp: build_enriched_def split: sum.splits)
  then have dicts: "list_all is_dict stocks" by (rule enrich_loop_Inr_dicts)
  from run have out: "out = map (enriched_entry w) (filter has_ticker stocks)"
    using enrich_loop_Inr by fastforce
  have "list_all (\<lambda>s. is_dict s \<and> has_ticker s) out"
    unfolding out using dicts
    by (auto simp: list_all_iff is_dict_enriched_entry has_ticker_enriched_entry)
  then show ?thesis
    using Inr by (simp add: generate_weekly_stocks_success cache_ok_def)
qed

lemma reachable_cache_ok: "reachable c \<Longrightarrow> cache_ok c"
proof (induction rule: reachable.induct)
  case start
  show ?case by (rule cache_ok_initial)
next
  case (generate c w provider)
  then show ?case by (simp add: cache_ok_generate)
next
  case (daily c w)
  then show ?case by (simp add: get_daily_keeps_cache)
qed

lemma tickers_of_views:
  "list_all is_dict xs \<Longrightarrow>
   map ticker (map (view_of w) (filter (served w) xs)) = map ticker_of (filter (served w) xs)"
  by (induction xs) (simp_all add: ticker_view_of)

text \<open>
  Claim C7. For every cache the program can hold and every behaviour of the price fetch, the
  daily endpoint returns the staleness error when the cache is stale, and otherwise returns
  views whose tickers are exactly the cached tickers, in order, for which the fetch returned
  at least two closes: a ticker whose fetch raises or returns fewer than two closes is left
  out, every other ticker appears, and no exception leaves the operation.
\<close>

theorem ticker_failures_isolated:
  assumes "reachable c"
  shows "(stale w c \<longrightarrow> fst (get_daily_stock_data w c) = Inr (DailyError stale_message))
       \<and> (\<not> stale w c \<longrightarrow>
            (\<exists>views. fst (get_daily_stock_data w c) = Inr (DailyData views)
               \<and> map ticker views = filter (fetch_ok w) (map ticker_of (data c))))"
proof (intro conjI impI)
  assume "stale w c"
  then show "fst (get_daily_stock_data w c) = Inr (DailyError stale_message)"
    by (simp add: get_daily_stale)
next
  assume fresh: "\<not> stale w c"
  from assms have ok: "cache_ok c" by (rule reachable_cache_ok)
  then have all: "list_all (\<lambda>s. is_dict s \<and> has_ticker s) (data c)"
    and stamp: "data c = [] \<or> last_updated c \<noteq> None"
    by (simp_all add: cache_ok_def)
  from all have dicts: "list_all is_dict (data c)" by (simp add: list_all_iff)
  let ?views = "map (view_of w) (filter (served w) (data c))"
  from fresh have "data c \<noteq> []" by (simp add: stale_def)
  with stamp have "last_updated c \<noteq> None" by simp
  with fresh have "get_daily_stock_data w c =
      (case merge_loop w (data c) [] of
         Inl e \<Rightarrow> (Inl e, c) | Inr merged \<Rightarrow> (Inr (DailyData merged), c))"
    by (rule get_daily_fresh)
  moreover have "merge_loop w (data c) [] = Inr ([] @ ?views)"
    using dicts by (rule merge_loop_dicts)
  ultimately have g: "fst (get_daily_stock_data w c) = Inr (DailyData ?views)" by simp
  have "filter (served w) (data c) = filter (\<lambda>s. fetch_ok w (ticker_of s)) (data c)"
    using all by (intro filter_cong) (auto simp: served_def list_all_iff)
  then have "map ticker ?views = map ticker_of (filter (\<lambda>s. fetch_ok w (ticker_of s)) (data c))"
    using tickers_of_views [OF dicts, of w] by simp
  also have "\<dots> = filter (fetch_ok w) (map ticker_of (data c))"
    by (simp add: filter_map comp_def)
  finally show "\<exists>views. fst (get_daily_stock_data w c) = Inr (DailyData views)
               \<and> map ticker views = filter (fetch_ok w) (map ticker_of (data c))"
    using g by blast
qed

text \<open>
  The cache left by a generation holds \<open>ZZZ\<close> and \<open>AAA\<close>; the fetch for \<open>ZZZ\<close> returns
  one close and the one for \<open>AAA\<close> two; the response holds the view of \<open>AAA\<close> alone.
\<close>

theorem ticker_failures_isolated_witness:
  "reachable demo_cache
   \<and> \<not> stale demo_world demo_cache
   \<and> map ticker_of (data demo_cache) = [JStr ''ZZZ'', JStr ''AAA'']
   \<and> ticker_history demo_world (JStr ''ZZZ'') = Inr [Finite 42]
   \<and> ticker_history demo_world (JStr ''AAA'') = Inr [Finite 100, Finite 105]
   \<and> fst (get_daily_stock_data demo_world demo_cache) =
       Inr (DailyData
         [\<lparr>view_id = ''AAA-0.0'', ticker = JStr ''AAA'', name = JStr ''Triple A Corp'',
           buy_sell_score = JInt 80, reason = JStr ''up'', price = Finite 105,
           changePct = Finite 5\<rparr>])"
proof -
  have "snd (generate_weekly_stocks demo_world ''openai'' initial_cache) = demo_cache"
    by (simp add: run_defs demo_defs initial_cache_def)
  then have r: "reachable demo_cache"
    using reachable.generate [OF reachable.start, of demo_world "''openai''"] by simp
  have s: "\<not> stale demo_world demo_cache" by (simp add: stale_def demo_defs)
  have t: "map ticker_of (data demo_cache) = [JStr ''ZZZ'', JStr ''AAA'']"
    by (simp add: ticker_of_def dict_get_def demo_defs)
  have h: "ticker_history demo_world (JStr ''ZZZ'') = Inr [Finite 42]"
          "ticker_history demo_world (JStr ''AAA'') = Inr [Finite 100, Finite 105]"
    by (simp_all add: demo_defs)
  have g: "fst (get_daily_stock_data demo_world demo_cache) =
       Inr (DailyData
         [\<lparr>view_id = ''AAA-0.0'', ticker = JStr ''AAA'', name = JStr ''Triple A Corp'',
           buy_sell_score = JInt 80, reason = JStr ''up'', price = Finite 105,
           changePct = Finite 5\<rparr>])"
    by (simp add: daily_defs demo_defs Let_def)
  show ?thesis
    using ticker_failures_isolated [OF r, of demo_world] r s t h g by simp
qed

section \<open>Order of the merged result\<close>

text \<open>
  Claim C8. Whatever the cache holds and whatever the price fetches return, the tickers of
  the views returned are a subsequence of the tickers of the cached list, in the same
  order. (The loop fetches one ticker after the other; there is no completion order other
  than the cache order.)
\<close>

theorem merged_order_follows_cache:
  assumes "fst (get_daily_stock_data w c) = Inr (DailyData views)"
  shows "subseq (map ticker views) (map ticker_of (data c))"
proof -
  from assms have views: "views = map (view_of w) (filter (served w) (data c))"
    and dicts: "list_all is_dict (data c)"
    by (rule get_daily_data)+
  have "map ticker views = map ticker_of (filter (served w) (data c))"
    unfolding views using dicts by (rule tickers_of_views)
  moreover have "subseq (map ticker_of (filter (served w) (data c))) (map ticker_of (data c))"
    by (intro subseq_map subseq_filter_left)
  ultimately show ?thesis by simp
qed

theorem merged_order_follows_cache_witness:
  "fst (get_daily_stock_data demo_world_all_priced demo_cache) =
     Inr (DailyData
       [\<lparr>view_id = ''ZZZ-0.0'', ticker = JStr ''ZZZ'', name = JStr ''ZZZ'',
         buy_sell_score = JInt 50, reason = JStr [], price = Finite 105, changePct = Finite 5\<rparr>,
        \<lparr>view_id = ''AAA-0.0'', ticker = JStr ''AAA'', name = JStr ''Triple A Corp'',
         buy_sell_score = JInt 80, reason = JStr ''up'', price = Finite 105,
         changePct = Finite 5\<rparr>])
   \<and> subseq [JStr ''ZZZ'', JStr ''AAA''] (map ticker_of (data demo_cache))"
proof -
  have g: "fst (get_daily_stock_data demo_world_all_priced demo_cache) =
     Inr (DailyData
       [\<lparr>view_id = ''ZZZ-0.0'', ticker = JStr ''ZZZ'', name = JStr ''ZZZ'',
         buy_sell_score = JInt 50, reason = JStr [], price = Finite 105, changePct = Finite 5\<rparr>,
        \<lparr>view_id = ''AAA-0.0'', ticker = JStr ''AAA'', name = JStr ''Triple A Corp'',
         buy_sell_score = JInt 80, reason = JStr ''up'', price = Finite 105,
         changePct = Finite 5\<rparr>])"
    by (simp add: daily_defs demo_defs Let_def)
  from merged_order_follows_cache [OF g] g show ?thesis by simp
qed

section \<open>Defaults of score and reason\<close>

lemma view_of_score_reason:
  "buy_sell_score (view_of w (JObj d)) =
     (case map_of d ''buy_sell_score'' of None \<Rightarrow> JInt 50 | Some x \<Rightarrow> x)"
  "reason (view_of w (JObj d)) =
     (case map_of d ''reason'' of None \<Rightarrow> JStr [] | Some x \<Rightarrow> x)"
  by (simp_all add: view_of_def make_view_def dict_get_def Let_def)

text \<open>
  Claim C10. The views returned correspond, one to one and in order, to the cached entries
  that are served. The score of a view is the value under the key \<open>buy_sell_score\<close> of its
  entry, or 50 when the entry has no such key; its reason is the value under \<open>reason\<close>,
  or the empty string when the entry has no such key.
\<close>

theorem score_and_reason_defaults:
  assumes "fst (get_daily_stock_data w c) = Inr (DailyData views)"
  shows "list_all2
           (\<lambda>v stock. \<exists>d. stock = JObj d
              \<and> buy_sell_score v =
                  (case map_of d ''buy_sell_score'' of None \<Rightarrow> JInt 50 | Some x \<Rightarrow> x)
              \<and> reason v = (case map_of d ''reason'' of None \<Rightarrow> JStr [] | Some x \<Rightarrow> x))
           views (filter (served w) (data c))"
proof -
  from assms have views: "views = map (view_of w) (filter (served w) (data c))"
    and dicts: "list_all is_dict (data c)"
    by (rule get_daily_data)+
  show ?thesis
    unfolding views list_all2_map1 list_all2_same
  proof
    fix stock
    assume "stock \<in> set (filter (served w) (data c))"
    with dicts have "is_dict stock" by (simp add: list_all_iff)
    then obtain d where "stock = JObj d" by (auto simp: is_dict_iff)
    then show "\<exists>d. stock = JObj d
        \<and> buy_sell_score (view_of w stock) =
            (case map_of d ''buy_sell_score'' of None \<Rightarrow> JInt 50 | Some x \<Rightarrow> x)
        \<and> reason (view_of w stock) =
            (case map_of d ''reason'' of None \<Rightarrow> JStr [] | Some x \<Rightarrow> x)"
      by (simp add: view_of_score_reason)
  qed
qed

text \<open>
  The cached entry for \<open>ZZZ\<close> has a key \<open>score\<close> but neither \<open>buy_sell_score\<close> nor
  \<open>reason\<close>: its view has the score 50 and the empty reason. The entry for \<open>AAA\<close> has
  both keys and its view copies them.
\<close>

theorem score_and_reason_defaults_witness:
  "fst (get_daily_stock_data demo_world_all_priced demo_cache) =
     Inr (DailyData
       [\<lparr>view_id = ''ZZZ-0.0'', ticker = JStr ''ZZZ'', name = JStr ''ZZZ'',
         buy_sell_score = JInt 50, reason = JStr [], price = Finite 105, changePct = Finite 5\<rparr>,
        \<lparr>view_id = ''AAA-0.0'', ticker = JStr ''AAA'', name = JStr ''Triple A Corp'',
         buy_sell_score = JInt 80, reason = JStr ''up'', price = Finite 105,
         changePct = Finite 5\<rparr>])
   \<and> filter (served demo_world_all_priced) (data demo_cache) =
       [JObj [(''ticker'', JStr ''ZZZ''), (''score'', JInt 10), (''name'', JStr ''ZZZ'')],
        JObj [(''ticker'', JStr ''AAA''), (''buy_sell_score'', JInt 80),
              (''reason'', JStr ''up''), (''name'', JStr ''Triple A Corp'')]]"
proof -
  have g: "fst (get_daily_stock_data demo_world_all_priced demo_cache) =
     Inr (DailyData
       [\<lparr>view_id = ''ZZZ-0.0'', ticker = JStr ''ZZZ'', name = JStr ''ZZZ'',
         buy_sell_score = JInt 50, reason = JStr [], price = Finite 105, changePct = Finite 5\<rparr>,
        \<lparr>view_id = ''AAA-0.0'', ticker = JStr ''AAA'', name = JStr ''Triple A Corp'',
         buy_sell_score = JInt 80, reason = JStr ''up'', price = Finite 105,
         changePct = Finite 5\<rparr>])"
    by (simp add: daily_defs demo_defs Let_def)
  have f: "filter (served demo_world_all_priced) (data demo_cache) =
       [JObj [(''ticker'', JStr ''ZZZ''), (''score'', JInt 10), (''name'', JStr ''ZZZ'')],
        JObj [(''ticker'', JStr ''AAA''), (''buy_sell_score'', JInt 80),
              (''reason'', JStr ''up''), (''name'', JStr ''Triple A Corp'')]]"
    by (simp add: served_def has_ticker_def ticker_of_def fetch_ok_def dict_get_def demo_defs)
  from score_and_reason_defaults [OF g] g f show ?thesis by simp
qed

end
